theory Spec2Isabelle
  imports Main "HOL-Library.AList" "HOL-Library.Char_ord" "HOL-Library.List_Lexorder"
begin

section \<open>Formatting\<close>

text \<open>
  The verb \<open>%d\<close> of \<open>fmt.Sprintf\<close>, which is also the decimal form in which Redis keeps
  an integer.
\<close>

definition digit :: "nat \<Rightarrow> char" where
  "digit d = ''0123456789'' ! d"

fun decimal :: "nat \<Rightarrow> string" where
  "decimal n = (if n < 10 then [digit n] else decimal (n div 10) @ [digit (n mod 10)])"

definition fmt_d :: "int \<Rightarrow> string" where
  "fmt_d i = (if i < 0 then CHR ''-'' # decimal (nat (- i)) else decimal (nat i))"

section \<open>The Redis server the stores talk to\<close>

text \<open>
  Both stores and the worker registry reach Redis through a go-redis client. The
  server is outside the repository, so it is modelled by its documented commands on a
  keyspace: an association list from a key to its value and its time to live in
  seconds (0: the key does not expire, as go-redis reads a zero expiration). A command
  can also fail for a reason that is not the keyspace's (the connection, the server):
  the list \<open>faults\<close> says for each coming command whether it fails, and a command
  takes the head of the list. No fault is pending when the list is empty. The model is
  sequential: one client, one command at a time.
\<close>

datatype redis_err = RedisNil | RedisFault | RedisNotInteger

record redis =
  kv :: "(string \<times> string \<times> nat) list"
  faults :: "bool list"

definition next_fault :: "redis \<Rightarrow> bool \<times> redis" where
  "next_fault r = (case faults r of [] \<Rightarrow> (False, r) | f # fs \<Rightarrow> (f, r\<lparr>faults := fs\<rparr>))"

definition redis_GET :: "string \<Rightarrow> redis \<Rightarrow> (redis_err + string) \<times> redis" where
  "redis_GET key r =
     (case next_fault r of
        (True, r') \<Rightarrow> (Inl RedisFault, r')
      | (False, r') \<Rightarrow>
          (case map_of (kv r') key of
             None \<Rightarrow> (Inl RedisNil, r')
           | Some (v, ttl) \<Rightarrow> (Inr v, r')))"

definition redis_SET :: "string \<Rightarrow> string \<Rightarrow> nat \<Rightarrow> redis \<Rightarrow> redis_err option \<times> redis" where
  "redis_SET key v ttl r =
     (case next_fault r of
        (True, r') \<Rightarrow> (Some RedisFault, r')
      | (False, r') \<Rightarrow> (None, r'\<lparr>kv := AList.update key (v, ttl) (kv r')\<rparr>))"

definition redis_DEL :: "string \<Rightarrow> redis \<Rightarrow> redis_err option \<times> redis" where
  "redis_DEL key r =
     (case next_fault r of
        (True, r') \<Rightarrow> (Some RedisFault, r')
      | (False, r') \<Rightarrow> (None, r'\<lparr>kv := AList.delete key (kv r')\<rparr>))"

text \<open>
  INCRBY reads the value as a 64-bit signed integer in its canonical decimal form (an
  absent key counts as 0), adds the increment and stores the sum in that form, keeping
  the time to live; a value of another form, or a sum outside 64 bits, is an error.
\<close>

definition digits_value :: "string \<Rightarrow> nat" where
  "digits_value s = foldl (\<lambda>a c. 10 * a + (of_char c - 48)) 0 s"

definition string2ll :: "string \<Rightarrow> int option" where
  "string2ll s =
     (let v = (case s of
                 [] \<Rightarrow> 0
               | c # t \<Rightarrow> if c = CHR ''-'' then - int (digits_value t) else int (digits_value s))
      in if fmt_d v = s \<and> - (2 ^ 63) \<le> v \<and> v < 2 ^ 63 then Some v else None)"

definition redis_INCRBY :: "string \<Rightarrow> int \<Rightarrow> redis \<Rightarrow> (redis_err + int) \<times> redis" where
  "redis_INCRBY key delta r =
     (case next_fault r of
        (True, r') \<Rightarrow> (Inl RedisFault, r')
      | (False, r') \<Rightarrow>
          (case (case map_of (kv r') key of
                   None \<Rightarrow> Some (0, 0)
                 | Some (v, ttl) \<Rightarrow> map_option (\<lambda>n. (n, ttl)) (string2ll v)) of
             None \<Rightarrow> (Inl RedisNotInteger, r')
           | Some (n, ttl) \<Rightarrow>
               if n + delta < - (2 ^ 63) \<or> 2 ^ 63 \<le> n + delta then (Inl RedisNotInteger, r')
               else (Inr (n + delta), r'\<lparr>kv := AList.update key (fmt_d (n + delta), ttl) (kv r')\<rparr>)))"

subsection \<open>Glob patterns of SCAN MATCH\<close>

text \<open>
  Redis matches a key against a glob-style pattern: \<open>*\<close> stands for any run of
  characters, \<open>?\<close> for one character, \<open>[...]\<close> for one character of a class (with
  ranges \<open>a-z\<close>, a leading \<open>^\<close> for the complement and \<open>\\<close> to quote a member), and
  \<open>\\<close> quotes the next character. \<open>glob_class\<close> reads a class after its opening
  bracket: it returns whether the character is a member and the pattern after the
  closing bracket.
\<close>

definition in_range :: "char \<Rightarrow> char \<Rightarrow> char \<Rightarrow> bool" where
  "in_range a b c =
     (min (of_char a :: nat) (of_char b) \<le> of_char c \<and> of_char c \<le> max (of_char a :: nat) (of_char b))"

fun glob_class :: "string \<Rightarrow> char \<Rightarrow> bool \<Rightarrow> bool \<times> string" where
  "glob_class [] c m = (m, [])"
| "glob_class (p # ps) c m =
     (if p = CHR 0x5C \<and> ps \<noteq> [] then glob_class (tl ps) c (m \<or> hd ps = c)
      else if p = CHR '']'' then (m, ps)
      else (case ps of
              d # e # rest \<Rightarrow>
                if d = CHR ''-'' then glob_class rest c (m \<or> in_range p e c)
                else glob_class ps c (m \<or> p = c)
            | _ \<Rightarrow> glob_class ps c (m \<or> p = c)))"

lemma glob_class_length: "length (snd (glob_class ps c m)) \<le> length ps"
proof (induction ps c m rule: glob_class.induct)
  case (1 c m)
  then show ?case by simp
next
  case (2 p ps c m)
  show ?case
  proof (cases "p = CHR 0x5C \<and> ps \<noteq> []")
    case True
    then have "length (snd (glob_class (tl ps) c (m \<or> hd ps = c))) \<le> length (tl ps)"
      using 2(1) by blast
    with True show ?thesis by simp
  next
    case esc: False
    show ?thesis
    proof (cases "p = CHR '']''")
      case True
      with esc show ?thesis by auto
    next
      case False
      show ?thesis
      proof (cases ps)
        case Nil
        with esc False show ?thesis by auto
      next
        case (Cons d ds)
        note ps = Cons
        show ?thesis
        proof (cases ds)
          case Nil
          have "length (snd (glob_class ps c (m \<or> p = c))) \<le> length ps"
            using 2 esc False ps Nil by simp
          with esc False ps Nil show ?thesis by auto
        next
          case (Cons e rest)
          show ?thesis
          proof (cases "d = CHR ''-''")
            case True
            have "length (snd (glob_class rest c (m \<or> in_range p e c))) \<le> length rest"
              using 2 esc False ps Cons True by simp
            with esc False ps Cons True show ?thesis by auto
          next
            case dash: False
            have "length (snd (glob_class ps c (m \<or> p = c))) \<le> length ps"
              using 2 esc False ps Cons dash by simp
            with esc False ps Cons dash show ?thesis by auto
          qed
        qed
      qed
    qed
  qed
qed

function glob :: "string \<Rightarrow> string \<Rightarrow> bool" where
  "glob [] s = (s = [])"
| "glob (p # ps) s =
     (if p = CHR ''*'' then
        (glob ps s \<or> (case s of [] \<Rightarrow> False | c # t \<Rightarrow> glob (p # ps) t))
      else if p = CHR ''?'' then
        (case s of [] \<Rightarrow> False | c # t \<Rightarrow> glob ps t)
      else if p = CHR ''['' then
        (case s of
           [] \<Rightarrow> False
         | c # t \<Rightarrow>
             (case ps of
                [] \<Rightarrow> False
              | q # qs \<Rightarrow>
                  if q = CHR ''^''
                  then \<not> fst (glob_class qs c False) \<and> glob (snd (glob_class qs c False)) t
                  else fst (glob_class ps c False) \<and> glob (snd (glob_class ps c False)) t))
      else if p = CHR 0x5C \<and> ps \<noteq> [] then
        (case s of [] \<Rightarrow> False | c # t \<Rightarrow> hd ps = c \<and> glob (tl ps) t)
      else
        (case s of [] \<Rightarrow> False | c # t \<Rightarrow> p = c \<and> glob ps t))"
  by pat_completeness auto
termination
proof (relation "measure (\<lambda>(p, s). length p + length s)", goal_cases)
  case 1
  show ?case by simp
next
  case (2 p ps s)
  then show ?case by simp
next
  case (3 p ps s c t)
  then show ?case by simp
next
  case (4 p ps s c t)
  then show ?case by simp
next
  case (5 p ps s c t q qs)
  have "length (snd (glob_class qs c False)) \<le> length qs" by (rule glob_class_length)
  with 5 show ?case by simp
next
  case (6 p ps s c t q qs)
  have "length (snd (glob_class ps c False)) \<le> length ps" by (rule glob_class_length)
  with 6 show ?case by simp
next
  case (7 p ps s c t)
  then show ?case by (cases ps) simp_all
next
  case (8 p ps s c t)
  then show ?case by simp
qed

definition redis_SCAN :: "string \<Rightarrow> redis \<Rightarrow> (redis_err + string list) \<times> redis" where
  "redis_SCAN pat r =
     (case next_fault r of
        (True, r') \<Rightarrow> (Inl RedisFault, r')
      | (False, r') \<Rightarrow> (Inr (filter (glob pat) (map fst (kv r'))), r'))"


text \<open>
  WATCH is the command \<open>client.Watch\<close> sends before it runs its callback; it changes
  no key.
\<close>

definition redis_WATCH :: "string \<Rightarrow> redis \<Rightarrow> redis_err option \<times> redis" where
  "redis_WATCH key r =
     (case next_fault r of
        (True, r') \<Rightarrow> (Some RedisFault, r')
      | (False, r') \<Rightarrow> (None, r'))"


section \<open>Results of a Go call\<close>

text \<open>
  A call either returns or panics (a nil interface or a nil map entry whose method is
  called). An \<open>error\<close> result is \<open>None\<close> for nil and \<open>Some e\<close> otherwise; the messages
  that \<open>fmt.Errorf\<close> builds are constructors that keep the arguments of the format.
\<close>

datatype 'a outcome = Panic | Return 'a

datatype redis_client = UniversalClient

datatype store_error =
    ErrNotExist string
  | ErrUnexpected redis_err
  | ErrOldValueMismatch string
  | ErrRedis redis_err
  | ErrSetFailed string redis_err
  | ErrGetNil string
  | ErrGetFailed string redis_err
  | ErrClientNotInitialized
  | ErrWriting string redis_err
  | ErrReading string redis_err
  | ErrRemoving string redis_err

section \<open>RedisStateStore\<close>

text \<open>
  The store holds its key prefix and the client; the server's state is passed to each
  method and returned. A method on a store whose client is nil panics, as the source
  checks nothing. In \<open>Get\<close> the source also tests the command object against nil, which
  the client never returns; the model has no branch for it.
\<close>

record RedisStateStore =
  KeyPath :: string
  rds :: "redis_client option"
  RetryCount :: int

definition RedisStateStore_Configure :: "RedisStateStore \<Rightarrow> string \<Rightarrow> string \<Rightarrow> RedisStateStore" where
  "RedisStateStore_Configure this flowName requestId =
     this\<lparr>KeyPath := ''core.'' @ flowName @ ''.'' @ requestId\<rparr>"

definition RedisStateStore_Update ::
  "RedisStateStore \<Rightarrow> string \<Rightarrow> string \<Rightarrow> string \<Rightarrow> redis \<Rightarrow> (store_error option \<times> redis) outcome" where
  "RedisStateStore_Update this key oldValue newValue r =
     (let key = KeyPath this @ ''.'' @ key in
      case rds this of
        None \<Rightarrow> Panic
      | Some client \<Rightarrow>
          Return
            (case redis_WATCH key r of
               (Some e, r0) \<Rightarrow> (Some (ErrRedis e), r0)
             | (None, r0) \<Rightarrow>
                 (case redis_GET key r0 of
                    (Inl e, r1) \<Rightarrow>
                      if e = RedisNil then (Some (ErrNotExist key), r1)
                      else (Some (ErrUnexpected e), r1)
                  | (Inr v, r1) \<Rightarrow>
                      if v \<noteq> oldValue then (Some (ErrOldValueMismatch key), r1)
                      else (case redis_SET key newValue 0 r1 of
                              (Some e, r2) \<Rightarrow> (Some (ErrRedis e), r2)
                            | (None, r2) \<Rightarrow> (None, r2)))))"

definition RedisStateStore_Set ::
  "RedisStateStore \<Rightarrow> string \<Rightarrow> string \<Rightarrow> redis \<Rightarrow> (store_error option \<times> redis) outcome" where
  "RedisStateStore_Set this key v r =
     (let key = KeyPath this @ ''.'' @ key in
      case rds this of
        None \<Rightarrow> Panic
      | Some client \<Rightarrow>
          Return
            (case redis_SET key v 0 r of
               (Some e, r1) \<Rightarrow> (Some (ErrSetFailed key e), r1)
             | (None, r1) \<Rightarrow> (None, r1)))"

definition RedisStateStore_Get ::
  "RedisStateStore \<Rightarrow> string \<Rightarrow> redis \<Rightarrow> ((store_error + string) \<times> redis) outcome" where
  "RedisStateStore_Get this key r =
     (let key = KeyPath this @ ''.'' @ key in
      case rds this of
        None \<Rightarrow> Panic
      | Some client \<Rightarrow>
          Return
            (case redis_GET key r of
               (Inl e, r1) \<Rightarrow>
                 if e = RedisNil then (Inl (ErrGetNil key), r1)
                 else (Inl (ErrGetFailed key e), r1)
             | (Inr v, r1) \<Rightarrow> (Inr v, r1)))"

definition RedisStateStore_Incr ::
  "RedisStateStore \<Rightarrow> string \<Rightarrow> int \<Rightarrow> redis \<Rightarrow> ((redis_err + int) \<times> redis) outcome" where
  "RedisStateStore_Incr this key v r =
     (let key = KeyPath this @ ''.'' @ key in
      case rds this of
        None \<Rightarrow> Panic
      | Some client \<Rightarrow> Return (redis_INCRBY key v r))"

text \<open>
  \<open>Cleanup\<close> scans the keys that match the prefix followed by \<open>.*\<close> and deletes each
  one; the last error seen is the result. The scan is one command here: the keys it
  returns are those of the keyspace when it runs.
\<close>

fun cleanup_loop :: "string list \<Rightarrow> redis_err option \<Rightarrow> redis \<Rightarrow> redis_err option \<times> redis" where
  "cleanup_loop [] rerr r = (rerr, r)"
| "cleanup_loop (k # ks) rerr r =
     (case redis_DEL k r of
        (Some e, r') \<Rightarrow> cleanup_loop ks (Some e) r'
      | (None, r') \<Rightarrow> cleanup_loop ks rerr r')"

definition scan_and_delete :: "string \<Rightarrow> redis \<Rightarrow> redis_err option \<times> redis" where
  "scan_and_delete key r =
     (case redis_SCAN key r of
        (Inl e, r1) \<Rightarrow> (Some e, r1)
      | (Inr keys, r1) \<Rightarrow> cleanup_loop keys None r1)"

definition RedisStateStore_Cleanup ::
  "RedisStateStore \<Rightarrow> redis \<Rightarrow> (store_error option \<times> redis) outcome" where
  "RedisStateStore_Cleanup this r =
     (let key = KeyPath this @ ''.*'' in
      case rds this of
        None \<Rightarrow> Panic
      | Some client \<Rightarrow>
          Return (case scan_and_delete key r of (rerr, r') \<Rightarrow> (map_option ErrRedis rerr, r')))"

definition RedisStateStore_CopyStore :: "RedisStateStore \<Rightarrow> RedisStateStore" where
  "RedisStateStore_CopyStore this =
     \<lparr>KeyPath = KeyPath this, rds = rds this, RetryCount = RetryCount this\<rparr>"

section \<open>RedisDataStore\<close>

text \<open>
  The data store tests its client against nil in \<open>Init\<close>, \<open>Set\<close>, \<open>Get\<close> and \<open>Del\<close>, and
  not in \<open>Cleanup\<close>, which panics on a nil client. As in the state store, \<open>Get\<close> has no
  branch for a nil command object.
\<close>

record RedisDataStore =
  bucketName :: string
  redisClient :: "redis_client option"

definition RedisDataStore_Configure :: "RedisDataStore \<Rightarrow> string \<Rightarrow> string \<Rightarrow> RedisDataStore" where
  "RedisDataStore_Configure this flowName requestId =
     this\<lparr>bucketName := ''core-'' @ flowName @ ''-'' @ requestId\<rparr>"

definition getPath :: "string \<Rightarrow> string \<Rightarrow> string" where
  "getPath bucket key = (let fileName = key @ ''.value'' in bucket @ ''.'' @ fileName)"

definition RedisDataStore_Init :: "RedisDataStore \<Rightarrow> store_error option" where
  "RedisDataStore_Init this =
     (if redisClient this = None then Some ErrClientNotInitialized else None)"

definition RedisDataStore_Set ::
  "RedisDataStore \<Rightarrow> string \<Rightarrow> string \<Rightarrow> redis \<Rightarrow> store_error option \<times> redis" where
  "RedisDataStore_Set this key v r =
     (if redisClient this = None then (Some ErrClientNotInitialized, r)
      else
        (let fullPath = getPath (bucketName this) key in
         case redis_SET fullPath v 0 r of
           (Some e, r1) \<Rightarrow> (Some (ErrWriting fullPath e), r1)
         | (None, r1) \<Rightarrow> (None, r1)))"

definition RedisDataStore_Get ::
  "RedisDataStore \<Rightarrow> string \<Rightarrow> redis \<Rightarrow> (store_error + string) \<times> redis" where
  "RedisDataStore_Get this key r =
     (if redisClient this = None then (Inl ErrClientNotInitialized, r)
      else
        (let fullPath = getPath (bucketName this) key in
         case redis_GET fullPath r of
           (Inl e, r1) \<Rightarrow> (Inl (ErrReading fullPath e), r1)
         | (Inr v, r1) \<Rightarrow> (Inr v, r1)))"

definition RedisDataStore_Del ::
  "RedisDataStore \<Rightarrow> string \<Rightarrow> redis \<Rightarrow> store_error option \<times> redis" where
  "RedisDataStore_Del this key r =
     (if redisClient this = None then (Some ErrClientNotInitialized, r)
      else
        (let fullPath = getPath (bucketName this) key in
         case redis_DEL fullPath r of
           (Some e, r1) \<Rightarrow> (Some (ErrRemoving fullPath e), r1)
         | (None, r1) \<Rightarrow> (None, r1)))"

definition RedisDataStore_Cleanup ::
  "RedisDataStore \<Rightarrow> redis \<Rightarrow> (store_error option \<times> redis) outcome" where
  "RedisDataStore_Cleanup this r =
     (let key = bucketName this @ ''.*'' in
      case redisClient this of
        None \<Rightarrow> Panic
      | Some client \<Rightarrow>
          Return (case scan_and_delete key r of (rerr, r') \<Rightarrow> (map_option ErrRedis rerr, r')))"

definition RedisDataStore_CopyStore :: "RedisDataStore \<Rightarrow> RedisDataStore" where
  "RedisDataStore_CopyStore this =
     \<lparr>bucketName = bucketName this, redisClient = redisClient this\<rparr>"

section \<open>The rmq broker\<close>

text \<open>
  The queue library (rmq) is outside the repository. A connection is modelled by the
  calls that succeeded on it, in order, and by the number of queue handles it has given
  out: \<open>OpenQueue\<close> returns a new handle each time, as the library builds a new queue
  object. Whether a call fails is the library's and the server's business: the list
  \<open>rmq_faults\<close> decides it call by call, as \<open>faults\<close> does for Redis. A payload is of
  any type \<open>'p\<close>; in the program it is the JSON text of a task.
\<close>

type_synonym duration = int

definition Second :: duration where
  "Second = 1000000000"

datatype 'p rmq_call =
    OpenConnection string
  | OpenQueue string nat
  | SetPushQueue nat nat
  | StartConsuming nat int duration
  | AddConsumer nat string
  | PublishBytes nat 'p
  | StopAllConsuming

datatype rmq_err = RmqFault

record 'p rmq =
  calls :: "'p rmq_call list"
  next_handle :: nat
  rmq_faults :: "bool list"

definition rmq_fault :: "'p rmq \<Rightarrow> bool \<times> 'p rmq" where
  "rmq_fault c = (case rmq_faults c of [] \<Rightarrow> (False, c) | f # fs \<Rightarrow> (f, c\<lparr>rmq_faults := fs\<rparr>))"

definition rmq_call :: "'p rmq_call \<Rightarrow> 'p rmq \<Rightarrow> rmq_err option \<times> 'p rmq" where
  "rmq_call x c =
     (case rmq_fault c of
        (True, c') \<Rightarrow> (Some RmqFault, c')
      | (False, c') \<Rightarrow> (None, c'\<lparr>calls := calls c' @ [x]\<rparr>))"

definition rmq_OpenConnection :: "string \<Rightarrow> 'p rmq \<Rightarrow> rmq_err option \<times> 'p rmq" where
  "rmq_OpenConnection tag c = rmq_call (OpenConnection tag) c"

definition rmq_OpenQueue :: "string \<Rightarrow> 'p rmq \<Rightarrow> (rmq_err + nat) \<times> 'p rmq" where
  "rmq_OpenQueue name c =
     (case rmq_call (OpenQueue name (next_handle c)) c of
        (Some e, c') \<Rightarrow> (Inl e, c')
      | (None, c') \<Rightarrow> (Inr (next_handle c), c'\<lparr>next_handle := Suc (next_handle c)\<rparr>))"

text \<open>\<open>SetPushQueue\<close> returns nothing and talks to no server: it cannot fail.\<close>

definition rmq_SetPushQueue :: "nat \<Rightarrow> nat \<Rightarrow> 'p rmq \<Rightarrow> 'p rmq" where
  "rmq_SetPushQueue q pushQueue c = c\<lparr>calls := calls c @ [SetPushQueue q pushQueue]\<rparr>"

definition rmq_StartConsuming :: "nat \<Rightarrow> int \<Rightarrow> duration \<Rightarrow> 'p rmq \<Rightarrow> rmq_err option \<times> 'p rmq" where
  "rmq_StartConsuming q prefetchLimit pollDuration c =
     rmq_call (StartConsuming q prefetchLimit pollDuration) c"

definition rmq_AddConsumer :: "nat \<Rightarrow> string \<Rightarrow> 'p rmq \<Rightarrow> rmq_err option \<times> 'p rmq" where
  "rmq_AddConsumer q tag c = rmq_call (AddConsumer q tag) c"

definition rmq_PublishBytes :: "nat \<Rightarrow> 'p \<Rightarrow> 'p rmq \<Rightarrow> rmq_err option \<times> 'p rmq" where
  "rmq_PublishBytes q payload c = rmq_call (PublishBytes q payload) c"

text \<open>
  A delivery is acknowledged or pushed once: both remove it from the unacknowledged
  list, and a call that does not find it there returns the library's not-found error.
  \<open>d_calls\<close> keeps every call made on the delivery with its result.
\<close>

datatype delivery_call = Ack | Push

datatype delivery_err = DeliveryFault | ErrorNotFound

record 'p delivery =
  Payload :: 'p
  unacked :: bool
  d_calls :: "(delivery_call \<times> delivery_err option) list"
  d_faults :: "bool list"

definition delivery_call :: "delivery_call \<Rightarrow> 'p delivery \<Rightarrow> delivery_err option \<times> 'p delivery" where
  "delivery_call x m =
     (let (f, m') = (case d_faults m of [] \<Rightarrow> (False, m) | f # fs \<Rightarrow> (f, m\<lparr>d_faults := fs\<rparr>));
          res = (if f then Some DeliveryFault else if unacked m' then None else Some ErrorNotFound)
      in (res, m'\<lparr>unacked := (unacked m' \<and> res \<noteq> None), d_calls := d_calls m' @ [(x, res)]\<rparr>))"

section \<open>FlowRuntime\<close>

text \<open>
  The constants of the runtime.
\<close>

definition InternalRequestQueueInitial :: string where
  "InternalRequestQueueInitial = ''goflow-internal-request''"





definition PartialRequest :: string where "PartialRequest = ''PARTIAL''"
definition NewRequest :: string where "NewRequest = ''NEW''"
definition PauseRequest :: string where "PauseRequest = ''PAUSE''"
definition ResumeRequest :: string where "ResumeRequest = ''RESUME''"
definition StopRequest :: string where "StopRequest = ''STOP''"

text \<open>
  A request and a task carry the same data; the fields of \<open>Task\<close> are named by their JSON
  tags. A header or query map is a map from a name to its values. \<open>Body\<close> is the byte
  string of the request.
\<close>

record Request =
  FlowName :: string
  RequestID :: string
  Body :: string
  Header :: "string \<rightharpoonup> string list"
  RawQuery :: string
  Query :: "string \<rightharpoonup> string list"

record Task =
  flow_name :: string
  request_id :: string
  body :: string
  header :: "string \<rightharpoonup> string list"
  raw_query :: string
  query :: "string \<rightharpoonup> string list"
  request_type :: string

record Worker =
  worker_id :: string
  worker_flows :: "string list"
  worker_concurrency :: int

record Response =
  resp_RequestID :: string
  resp_Body :: string
  resp_Header :: "string \<rightharpoonup> string list"

text \<open>
  \<open>rmqConnection\<close> is an interface value that the runtime tests with
  \<open>reflect.ValueOf(...).IsNil()\<close>: the test is true for a nil pointer in the interface,
  false for a connection, and panics on the nil interface (the zero \<open>reflect.Value\<close>).
\<close>

datatype conn_ref = NilInterface | NilPointer | Connection

definition IsNil :: "conn_ref \<Rightarrow> bool outcome" where
  "IsNil v = (case v of NilInterface \<Rightarrow> Panic | NilPointer \<Rightarrow> Return True | Connection \<Rightarrow> Return False)"

text \<open>
  The fields of the runtime that its own methods read. \<open>Flows\<close> is the registry, a
  concurrent hash map: an association list here, which \<open>ForEach\<close> walks in order.
  \<open>taskQueues\<close> is a Go map that is nil until \<open>initializeTaskQueues\<close> makes it; its
  values are queue handles. A flow definition handler is a value of any type \<open>'h\<close>.
\<close>

record 'h FlowRuntime =
  Flows :: "(string \<times> 'h) list"
  Concurrency :: int
  RetryQueueCount :: int
  workerMode :: bool
  taskQueues :: "(string \<rightharpoonup> nat) option"
  rmqConnection :: conn_ref

text \<open>
  What the runtime calls and the repository's sources here do not hold: the JSON
  codec of the standard library, the executor's \<open>Init\<close>, the controllers of a new and of
  a partial request, the executor's \<open>Pause\<close>, \<open>Resume\<close> and \<open>Stop\<close>, and the exporter of a
  flow definition. Each is a function of the environment; an error of theirs is its
  text. Their effects on the stores are not part of this model.
\<close>

record ('h, 'p) env =
  json_Marshal :: "Task \<Rightarrow> 'p"
  json_Unmarshal :: "'p \<Rightarrow> string + Task"
  json_Marshal_Worker :: "Worker \<Rightarrow> string"
  executor_Init :: "'h \<Rightarrow> Request \<Rightarrow> string option"
  ExecuteFlowHandler :: "'h \<Rightarrow> Request \<Rightarrow> string option"
  PartialExecuteFlowHandler :: "'h \<Rightarrow> Request \<Rightarrow> string option"
  executor_Pause :: "'h \<Rightarrow> string \<Rightarrow> string option"
  executor_Resume :: "'h \<Rightarrow> string \<Rightarrow> string option"
  executor_Stop :: "'h \<Rightarrow> string \<Rightarrow> string option"
  exporter_Export :: "'h \<Rightarrow> string + string"

datatype rt_error =
    ErrRegisterNoConnection
  | ErrEnterNoConnection
  | ErrEnterWorkerMode rt_error
  | ErrController string
  | ErrAlreadyRegistered string
  | ErrInitTaskQueues "string list" rt_error
  | ErrOpenQueue rmq_err
  | ErrOpenPushQueue rmq_err
  | ErrStartConsumerTaskQueue rmq_err
  | ErrStartConsumerPushQ rmq_err
  | ErrAddConsumer rmq_err
  | ErrInitiateConnection rmq_err
  | ErrGetQueue rmq_err
  | ErrPublishTask rmq_err
  | ErrNoHandler string
  | ErrExecutorInit string
  | ErrFailedToExecute string rt_error
  | ErrRequestFailed string
  | ErrPartialFailedToExecute string rt_error
  | ErrPartialRequestFailed string
  | ErrFailedToBePaused string rt_error
  | ErrFailedToBeResumed string rt_error
  | ErrFailedToBeStopped string rt_error
  | ErrControllerPause string
  | ErrControllerResume string
  | ErrControllerStop string
  | ErrInvalidRequest Request string
  | ErrDagExportFailed string
  | ErrRuntimeStopped

definition internalRequestQueueId :: "string \<Rightarrow> string" where
  "internalRequestQueueId flowName = InternalRequestQueueInitial @ '':'' @ flowName"

subsection \<open>Register and the task queues\<close>

text \<open>
  The loops of \<open>initializeTaskQueues\<close> for one flow. Each runs over the indices
  \<open>0, ..., n - 1\<close> and leaves at the first call that fails.
\<close>

fun open_push_queues ::
  "string \<Rightarrow> nat list \<Rightarrow> nat \<Rightarrow> nat list \<Rightarrow> 'p rmq \<Rightarrow> (rt_error + nat list) \<times> 'p rmq" where
  "open_push_queues baseQId [] prevQ pushQueues c = (Inr pushQueues, c)"
| "open_push_queues baseQId (idx # idxs) prevQ pushQueues c =
     (let pushQId = baseQId @ ''-push-'' @ decimal idx in
      case rmq_OpenQueue pushQId c of
        (Inl e, c1) \<Rightarrow> (Inl (ErrOpenPushQueue e), c1)
      | (Inr q, c1) \<Rightarrow>
          open_push_queues baseQId idxs q (pushQueues @ [q]) (rmq_SetPushQueue prevQ q c1))"

fun start_push_queues :: "nat list \<Rightarrow> nat list \<Rightarrow> 'p rmq \<Rightarrow> rt_error option \<times> 'p rmq" where
  "start_push_queues pushQueues [] c = (None, c)"
| "start_push_queues pushQueues (idx # idxs) c =
     (case rmq_StartConsuming (pushQueues ! idx) 10 Second c of
        (Some e, c1) \<Rightarrow> (Some (ErrStartConsumerPushQ e), c1)
      | (None, c1) \<Rightarrow> start_push_queues pushQueues idxs c1)"

fun add_task_consumers :: "nat \<Rightarrow> nat list \<Rightarrow> 'p rmq \<Rightarrow> rt_error option \<times> 'p rmq" where
  "add_task_consumers taskQueue [] c = (None, c)"
| "add_task_consumers taskQueue (idx # idxs) c =
     (case rmq_AddConsumer taskQueue (''request-consumer-'' @ decimal idx) c of
        (Some e, c1) \<Rightarrow> (Some (ErrAddConsumer e), c1)
      | (None, c1) \<Rightarrow> add_task_consumers taskQueue idxs c1)"

fun add_push_consumers :: "nat list \<Rightarrow> nat list \<Rightarrow> 'p rmq \<Rightarrow> rt_error option \<times> 'p rmq" where
  "add_push_consumers pushQueues [] c = (None, c)"
| "add_push_consumers pushQueues (idx # idxs) c =
     (case rmq_AddConsumer (pushQueues ! idx) (''request-consumer-'' @ decimal idx) c of
        (Some e, c1) \<Rightarrow> (Some (ErrAddConsumer e), c1)
      | (None, c1) \<Rightarrow> add_push_consumers pushQueues idxs c1)"

text \<open>
  The callback that \<open>ForEach\<close> runs for a flow. It returns the error it stored in
  \<open>outErr\<close> (when it asked \<open>ForEach\<close> to stop), the map of task queues and the connection.
  \<open>make\<close> of a slice of negative length panics.
\<close>

definition init_flow_queues ::
  "'h FlowRuntime \<Rightarrow> string \<Rightarrow> (string \<rightharpoonup> nat) \<Rightarrow> 'p rmq
     \<Rightarrow> (rt_error option \<times> (string \<rightharpoonup> nat) \<times> 'p rmq) outcome" where
  "init_flow_queues fRuntime flowName tq c =
     (let baseQId = internalRequestQueueId flowName in
      case rmq_OpenQueue baseQId c of
        (Inl e, c1) \<Rightarrow> Return (Some (ErrOpenQueue e), tq, c1)
      | (Inr taskQueue, c1) \<Rightarrow>
          if RetryQueueCount fRuntime < 0 then Panic
          else
            (case open_push_queues baseQId [0..<nat (RetryQueueCount fRuntime)] taskQueue [] c1 of
               (Inl e, c2) \<Rightarrow> Return (Some e, tq, c2)
             | (Inr pushQueues, c2) \<Rightarrow>
                 (case rmq_StartConsuming taskQueue 10 Second c2 of
                    (Some e, c3) \<Rightarrow> Return (Some (ErrStartConsumerTaskQueue e), tq, c3)
                  | (None, c3) \<Rightarrow>
                      (let tq' = tq(flowName \<mapsto> taskQueue) in
                       case start_push_queues pushQueues [0..<nat (RetryQueueCount fRuntime)] c3 of
                         (Some e, c4) \<Rightarrow> Return (Some e, tq', c4)
                       | (None, c4) \<Rightarrow>
                           (case add_task_consumers taskQueue [0..<nat (Concurrency fRuntime)] c4 of
                              (Some e, c5) \<Rightarrow> Return (Some e, tq', c5)
                            | (None, c5) \<Rightarrow>
                                (case add_push_consumers pushQueues
                                        [0..<nat (RetryQueueCount fRuntime)] c5 of
                                   (e, c6) \<Rightarrow> Return (e, tq', c6)))))))"

fun for_each_flow ::
  "'h FlowRuntime \<Rightarrow> (string \<times> 'h) list \<Rightarrow> (string \<rightharpoonup> nat) \<Rightarrow> 'p rmq
     \<Rightarrow> (rt_error option \<times> (string \<rightharpoonup> nat) \<times> 'p rmq) outcome" where
  "for_each_flow fRuntime [] tq c = Return (None, tq, c)"
| "for_each_flow fRuntime ((flowName, v) # rest) tq c =
     (case init_flow_queues fRuntime flowName tq c of
        Panic \<Rightarrow> Panic
      | Return (Some e, tq', c') \<Rightarrow> Return (Some e, tq', c')
      | Return (None, tq', c') \<Rightarrow> for_each_flow fRuntime rest tq' c')"

definition initializeTaskQueues ::
  "'h FlowRuntime \<Rightarrow> (string \<times> 'h) list \<Rightarrow> 'p rmq
     \<Rightarrow> (rt_error option \<times> 'h FlowRuntime \<times> 'p rmq) outcome" where
  "initializeTaskQueues fRuntime flows c =
     (let tq = (case taskQueues fRuntime of None \<Rightarrow> Map.empty | Some m \<Rightarrow> m) in
      case for_each_flow fRuntime flows tq c of
        Panic \<Rightarrow> Panic
      | Return (outErr, tq', c') \<Rightarrow> Return (outErr, fRuntime\<lparr>taskQueues := Some tq'\<rparr>, c'))"

text \<open>
  \<open>Register\<close> takes a Go map of flows: an association list here, walked in its order
  by both loops. The message it logs at the end is the last component of the result.
  A log entry keeps the arguments of the message: \<open>LogRequestFailed what id err\<close> is the
  message \<open>[request `id`] what. error: err\<close>.
\<close>

fun check_registered :: "(string \<times> 'h) list \<Rightarrow> (string \<times> 'h) list \<Rightarrow> string list \<Rightarrow> rt_error + string list" where
  "check_registered registry [] flowNames = Inr flowNames"
| "check_registered registry ((flowName, h) # rest) flowNames =
     (case map_of registry flowName of
        Some x \<Rightarrow> Inl (ErrAlreadyRegistered flowName)
      | None \<Rightarrow> check_registered registry rest (flowNames @ [flowName]))"

fun set_flows :: "(string \<times> 'h) list \<Rightarrow> (string \<times> 'h) list \<Rightarrow> (string \<times> 'h) list" where
  "set_flows registry [] = registry"
| "set_flows registry ((flowName, flowHandler) # rest) =
     set_flows (AList.update flowName flowHandler registry) rest"

datatype log_entry =
    LogQueueWorkersStarted "string list"
  | LogRejectParse string
  | LogRejectFailure rt_error
  | LogPushFailed delivery_err
  | LogAckFailed delivery_err
  | LogRequestFailed string string rt_error

definition Register ::
  "'h FlowRuntime \<Rightarrow> (string \<times> 'h) list \<Rightarrow> 'p rmq
     \<Rightarrow> (rt_error option \<times> 'h FlowRuntime \<times> 'p rmq \<times> log_entry list) outcome" where
  "Register fRuntime flows c =
     (case IsNil (rmqConnection fRuntime) of
        Panic \<Rightarrow> Panic
      | Return True \<Rightarrow> Return (Some ErrRegisterNoConnection, fRuntime, c, [])
      | Return False \<Rightarrow>
          if length flows = 0 then Return (None, fRuntime, c, [])
          else
            (case check_registered (Flows fRuntime) flows [] of
               Inl e \<Rightarrow> Return (Some e, fRuntime, c, [])
             | Inr flowNames \<Rightarrow>
                 (let rt1 = fRuntime\<lparr>Flows := set_flows (Flows fRuntime) flows\<rparr> in
                  if workerMode rt1 then
                    (case initializeTaskQueues rt1 (Flows rt1) c of
                       Panic \<Rightarrow> Panic
                     | Return (Some err, rt2, c') \<Rightarrow>
                         Return (Some (ErrInitTaskQueues flowNames err), rt2, c', [])
                     | Return (None, rt2, c') \<Rightarrow>
                         Return (None, rt2, c', [LogQueueWorkersStarted flowNames]))
                  else Return (None, rt1, c, [LogQueueWorkersStarted flowNames]))))"

definition EnterWorkerMode ::
  "'h FlowRuntime \<Rightarrow> 'p rmq \<Rightarrow> (rt_error option \<times> 'h FlowRuntime \<times> 'p rmq) outcome" where
  "EnterWorkerMode fRuntime c =
     (case IsNil (rmqConnection fRuntime) of
        Panic \<Rightarrow> Panic
      | Return True \<Rightarrow> Return (Some ErrEnterNoConnection, fRuntime, c)
      | Return False \<Rightarrow>
          if workerMode fRuntime then Return (None, fRuntime, c)
          else
            (let rt1 = fRuntime\<lparr>workerMode := True\<rparr> in
             case initializeTaskQueues rt1 (Flows rt1) c of
               Panic \<Rightarrow> Panic
             | Return (Some err, rt2, c') \<Rightarrow> Return (Some (ErrEnterWorkerMode err), rt2, c')
             | Return (None, rt2, c') \<Rightarrow> Return (None, rt2, c')))"

definition cleanTaskQueues ::
  "'h FlowRuntime \<Rightarrow> 'p rmq \<Rightarrow> (rt_error option \<times> 'h FlowRuntime \<times> 'p rmq) outcome" where
  "cleanTaskQueues fRuntime c =
     (case IsNil (rmqConnection fRuntime) of
        Panic \<Rightarrow> Panic
      | Return isNil \<Rightarrow>
          (let c' = (if \<not> isNil then c\<lparr>calls := calls c @ [StopAllConsuming]\<rparr> else c) in
           Return (None, fRuntime\<lparr>taskQueues := Some Map.empty\<rparr>, c')))"

definition ExitWorkerMode ::
  "'h FlowRuntime \<Rightarrow> 'p rmq \<Rightarrow> (rt_error option \<times> 'h FlowRuntime \<times> 'p rmq) outcome" where
  "ExitWorkerMode fRuntime c =
     (case IsNil (rmqConnection fRuntime) of
        Panic \<Rightarrow> Panic
      | Return True \<Rightarrow> Return (None, fRuntime, c)
      | Return False \<Rightarrow>
          if \<not> workerMode fRuntime then Return (None, fRuntime, c)
          else cleanTaskQueues (fRuntime\<lparr>workerMode := False\<rparr>) c)"

subsection \<open>Publishing tasks\<close>

text \<open>
  \<open>Execute\<close> opens a connection of its own, opens the primary queue of the flow and
  publishes the task; the error of \<open>json.Marshal\<close> is dropped by the source.
\<close>

definition Execute ::
  "('h, 'p) env \<Rightarrow> 'h FlowRuntime \<Rightarrow> string \<Rightarrow> Request \<Rightarrow> 'p rmq \<Rightarrow> rt_error option \<times> 'p rmq" where
  "Execute env fRuntime flowName request c =
     (case rmq_OpenConnection ''goflow'' c of
        (Some e, c1) \<Rightarrow> (Some (ErrInitiateConnection e), c1)
      | (None, c1) \<Rightarrow>
          (case rmq_OpenQueue (internalRequestQueueId flowName) c1 of
             (Inl e, c2) \<Rightarrow> (Some (ErrGetQueue e), c2)
           | (Inr taskQueue, c2) \<Rightarrow>
               (let data = json_Marshal env
                             \<lparr>flow_name = flowName, request_id = RequestID request,
                              body = Body request, header = Header request,
                              raw_query = RawQuery request, query = Query request,
                              request_type = NewRequest\<rparr>
                in case rmq_PublishBytes taskQueue data c2 of
                     (Some e, c3) \<Rightarrow> (Some (ErrPublishTask e), c3)
                   | (None, c3) \<Rightarrow> (None, c3))))"

definition Pause ::
  "('h, 'p) env \<Rightarrow> 'h FlowRuntime \<Rightarrow> string \<Rightarrow> Request \<Rightarrow> 'p rmq \<Rightarrow> rt_error option \<times> 'p rmq" where
  "Pause env fRuntime flowName request c =
     (case rmq_OpenConnection ''goflow'' c of
        (Some e, c1) \<Rightarrow> (Some (ErrInitiateConnection e), c1)
      | (None, c1) \<Rightarrow>
          (case rmq_OpenQueue (internalRequestQueueId flowName) c1 of
             (Inl e, c2) \<Rightarrow> (Some (ErrGetQueue e), c2)
           | (Inr taskQueue, c2) \<Rightarrow>
               (let data = json_Marshal env
                             \<lparr>flow_name = flowName, request_id = RequestID request,
                              body = Body request, header = Header request,
                              raw_query = RawQuery request, query = Query request,
                              request_type = PauseRequest\<rparr>
                in case rmq_PublishBytes taskQueue data c2 of
                     (Some e, c3) \<Rightarrow> (Some (ErrPublishTask e), c3)
                   | (None, c3) \<Rightarrow> (None, c3))))"

definition Stop ::
  "('h, 'p) env \<Rightarrow> 'h FlowRuntime \<Rightarrow> string \<Rightarrow> Request \<Rightarrow> 'p rmq \<Rightarrow> rt_error option \<times> 'p rmq" where
  "Stop env fRuntime flowName request c =
     (case rmq_OpenConnection ''goflow'' c of
        (Some e, c1) \<Rightarrow> (Some (ErrInitiateConnection e), c1)
      | (None, c1) \<Rightarrow>
          (case rmq_OpenQueue (internalRequestQueueId flowName) c1 of
             (Inl e, c2) \<Rightarrow> (Some (ErrGetQueue e), c2)
           | (Inr taskQueue, c2) \<Rightarrow>
               (let data = json_Marshal env
                             \<lparr>flow_name = flowName, request_id = RequestID request,
                              body = Body request, header = Header request,
                              raw_query = RawQuery request, query = Query request,
                              request_type = StopRequest\<rparr>
                in case rmq_PublishBytes taskQueue data c2 of
                     (Some e, c3) \<Rightarrow> (Some (ErrPublishTask e), c3)
                   | (None, c3) \<Rightarrow> (None, c3))))"

definition Resume ::
  "('h, 'p) env \<Rightarrow> 'h FlowRuntime \<Rightarrow> string \<Rightarrow> Request \<Rightarrow> 'p rmq \<Rightarrow> rt_error option \<times> 'p rmq" where
  "Resume env fRuntime flowName request c =
     (case rmq_OpenConnection ''goflow'' c of
        (Some e, c1) \<Rightarrow> (Some (ErrInitiateConnection e), c1)
      | (None, c1) \<Rightarrow>
          (case rmq_OpenQueue (internalRequestQueueId flowName) c1 of
             (Inl e, c2) \<Rightarrow> (Some (ErrGetQueue e), c2)
           | (Inr taskQueue, c2) \<Rightarrow>
               (let data = json_Marshal env
                             \<lparr>flow_name = flowName, request_id = RequestID request,
                              body = Body request, header = Header request,
                              raw_query = RawQuery request, query = Query request,
                              request_type = ResumeRequest\<rparr>
                in case rmq_PublishBytes taskQueue data c2 of
                     (Some e, c3) \<Rightarrow> (Some (ErrPublishTask e), c3)
                   | (None, c3) \<Rightarrow> (None, c3))))"

text \<open>
  \<open>EnqueuePartialRequest\<close> reads the queue of the flow from \<open>taskQueues\<close>. A read of a
  nil map or of a missing key gives the nil queue, and the call of \<open>PublishBytes\<close> on it
  panics.
\<close>

definition EnqueuePartialRequest ::
  "('h, 'p) env \<Rightarrow> 'h FlowRuntime \<Rightarrow> Request \<Rightarrow> 'p rmq \<Rightarrow> (rt_error option \<times> 'p rmq) outcome" where
  "EnqueuePartialRequest env fRuntime pr c =
     (let data = json_Marshal env
                   \<lparr>flow_name = FlowName pr, request_id = RequestID pr,
                    body = Body pr, header = Header pr,
                    raw_query = RawQuery pr, query = Query pr,
                    request_type = PartialRequest\<rparr>
      in case (case taskQueues fRuntime of None \<Rightarrow> None | Some m \<Rightarrow> m (FlowName pr)) of
           None \<Rightarrow> Panic
         | Some q \<Rightarrow>
             (case rmq_PublishBytes q data c of
                (Some e, c') \<Rightarrow> Return (Some (ErrPublishTask e), c')
              | (None, c') \<Rightarrow> Return (None, c')))"

subsection \<open>Consuming tasks\<close>

datatype handler = HandlePartial | HandleNew | HandlePause | HandleResume | HandleStop

text \<open>
  What a call leaves behind: a message given to the runtime's logger, a line printed
  with the standard logger (its format and its two arguments), and the entry into one
  of the five request handlers.
\<close>

datatype event =
    Logged log_entry
  | Printed string string string
  | Invoked handler Request

definition makeRequestFromTask :: "Task \<Rightarrow> Request" where
  "makeRequestFromTask task =
     \<lparr>FlowName = flow_name task, RequestID = request_id task, Body = body task,
      Header = header task, RawQuery = raw_query task, Query = query task\<rparr>"

text \<open>The executor is represented by the handler of its flow.\<close>

definition CreateExecutor :: "('h, 'p) env \<Rightarrow> 'h FlowRuntime \<Rightarrow> Request \<Rightarrow> rt_error + 'h" where
  "CreateExecutor env fRuntime req =
     (case map_of (Flows fRuntime) (FlowName req) of
        None \<Rightarrow> Inl (ErrNoHandler (FlowName req))
      | Some flowHandler \<Rightarrow>
          (case executor_Init env flowHandler req of
             Some e \<Rightarrow> Inl (ErrExecutorInit e)
           | None \<Rightarrow> Inr flowHandler))"

definition PauseFlowHandler ::
  "('h, 'p) env \<Rightarrow> Response \<Rightarrow> Request \<Rightarrow> 'h \<Rightarrow> rt_error option \<times> Response \<times> event list" where
  "PauseFlowHandler env response request ex =
     (let ev = [Printed ''Pausing request %s of flow %s'' (RequestID request) (FlowName request)] in
      case executor_Pause env ex (RequestID request) of
        Some e \<Rightarrow> (Some (ErrControllerPause (RequestID request)), response, ev)
      | None \<Rightarrow>
          (None, response\<lparr>resp_Body := ''Successfully paused request '' @ RequestID request\<rparr>, ev))"

definition ResumeFlowHandler ::
  "('h, 'p) env \<Rightarrow> Response \<Rightarrow> Request \<Rightarrow> 'h \<Rightarrow> rt_error option \<times> Response \<times> event list" where
  "ResumeFlowHandler env response request ex =
     (let ev = [Printed ''Resuming flow %s for request %s'' (FlowName request) (RequestID request)] in
      case executor_Resume env ex (RequestID request) of
        Some e \<Rightarrow> (Some (ErrControllerResume (RequestID request)), response, ev)
      | None \<Rightarrow>
          (None, response\<lparr>resp_Body := ''Successfully resumed request '' @ RequestID request\<rparr>, ev))"

definition StopFlowHandler ::
  "('h, 'p) env \<Rightarrow> Response \<Rightarrow> Request \<Rightarrow> 'h \<Rightarrow> rt_error option \<times> Response \<times> event list" where
  "StopFlowHandler env response request ex =
     (let ev = [Printed ''Stopping request %s for flow %s'' (FlowName request) (RequestID request)] in
      case executor_Stop env ex (RequestID request) of
        Some e \<Rightarrow> (Some (ErrControllerStop (RequestID request)), response, ev)
      | None \<Rightarrow>
          (None, response\<lparr>resp_Body := ''Successfully stopped request '' @ RequestID request\<rparr>, ev))"

definition handleNewRequest ::
  "('h, 'p) env \<Rightarrow> 'h FlowRuntime \<Rightarrow> Request \<Rightarrow> rt_error option \<times> event list" where
  "handleNewRequest env fRuntime request =
     (case CreateExecutor env fRuntime request of
        Inl err \<Rightarrow> (Some (ErrFailedToExecute (RequestID request) err), [])
      | Inr flowExecutor \<Rightarrow>
          (case ExecuteFlowHandler env flowExecutor request of
             Some e \<Rightarrow> (Some (ErrRequestFailed e), [])
           | None \<Rightarrow> (None, [])))"

definition handlePartialRequest ::
  "('h, 'p) env \<Rightarrow> 'h FlowRuntime \<Rightarrow> Request \<Rightarrow> rt_error option \<times> event list" where
  "handlePartialRequest env fRuntime request =
     (case CreateExecutor env fRuntime request of
        Inl err \<Rightarrow>
          (Some (ErrPartialFailedToExecute (RequestID request) err),
           [Logged (LogRequestFailed ''failed to execute request'' (RequestID request) err)])
      | Inr flowExecutor \<Rightarrow>
          (case PartialExecuteFlowHandler env flowExecutor request of
             Some e \<Rightarrow>
               (Some (ErrPartialRequestFailed e),
                [Logged (LogRequestFailed ''failed to be processed'' (RequestID request) (ErrController e))])
           | None \<Rightarrow> (None, [])))"

definition handlePauseRequest ::
  "('h, 'p) env \<Rightarrow> 'h FlowRuntime \<Rightarrow> Request \<Rightarrow> rt_error option \<times> event list" where
  "handlePauseRequest env fRuntime request =
     (case CreateExecutor env fRuntime request of
        Inl err \<Rightarrow>
          (Some (ErrFailedToBePaused (RequestID request) err),
           [Logged (LogRequestFailed ''failed to be paused'' (RequestID request) err)])
      | Inr flowExecutor \<Rightarrow>
          (let response = \<lparr>resp_RequestID = RequestID request, resp_Body = [], resp_Header = Map.empty\<rparr> in
           case PauseFlowHandler env response request flowExecutor of
             (Some err, response', ev) \<Rightarrow>
               (Some (ErrFailedToBePaused (RequestID request) err),
                ev @ [Logged (LogRequestFailed ''failed to be paused'' (RequestID request) err)])
           | (None, response', ev) \<Rightarrow> (None, ev)))"

definition handleResumeRequest ::
  "('h, 'p) env \<Rightarrow> 'h FlowRuntime \<Rightarrow> Request \<Rightarrow> rt_error option \<times> event list" where
  "handleResumeRequest env fRuntime request =
     (case CreateExecutor env fRuntime request of
        Inl err \<Rightarrow>
          (Some (ErrFailedToBeResumed (RequestID request) err),
           [Logged (LogRequestFailed ''failed to be resumed'' (RequestID request) err)])
      | Inr flowExecutor \<Rightarrow>
          (let response = \<lparr>resp_RequestID = RequestID request, resp_Body = [], resp_Header = Map.empty\<rparr> in
           case ResumeFlowHandler env response request flowExecutor of
             (Some err, response', ev) \<Rightarrow>
               (Some (ErrFailedToBeResumed (RequestID request) err),
                ev @ [Logged (LogRequestFailed ''failed to be resumed'' (RequestID request) err)])
           | (None, response', ev) \<Rightarrow> (None, ev)))"

definition handleStopRequest ::
  "('h, 'p) env \<Rightarrow> 'h FlowRuntime \<Rightarrow> Request \<Rightarrow> rt_error option \<times> event list" where
  "handleStopRequest env fRuntime request =
     (case CreateExecutor env fRuntime request of
        Inl err \<Rightarrow>
          (Some (ErrFailedToBeStopped (RequestID request) err),
           [Logged (LogRequestFailed ''failed to be stopped'' (RequestID request) err)])
      | Inr flowExecutor \<Rightarrow>
          (let response = \<lparr>resp_RequestID = RequestID request, resp_Body = [], resp_Header = Map.empty\<rparr> in
           case StopFlowHandler env response request flowExecutor of
             (Some err, response', ev) \<Rightarrow>
               (Some (ErrFailedToBeStopped (RequestID request) err),
                ev @ [Logged (LogRequestFailed ''failed to be stopped'' (RequestID request) err)])
           | (None, response', ev) \<Rightarrow> (None, ev)))"

text \<open>
  \<open>handleRequest\<close> switches on the request type. The entry into a handler is recorded
  before what the handler leaves behind.
\<close>

definition handleRequest ::
  "('h, 'p) env \<Rightarrow> 'h FlowRuntime \<Rightarrow> Request \<Rightarrow> string \<Rightarrow> rt_error option \<times> event list" where
  "handleRequest env fRuntime request requestType =
     (if requestType = PartialRequest then
        (case handlePartialRequest env fRuntime request of
           (err, ev) \<Rightarrow> (err, Invoked HandlePartial request # ev))
      else if requestType = NewRequest then
        (case handleNewRequest env fRuntime request of
           (err, ev) \<Rightarrow> (err, Invoked HandleNew request # ev))
      else if requestType = PauseRequest then
        (case handlePauseRequest env fRuntime request of
           (err, ev) \<Rightarrow> (err, Invoked HandlePause request # ev))
      else if requestType = ResumeRequest then
        (case handleResumeRequest env fRuntime request of
           (err, ev) \<Rightarrow> (err, Invoked HandleResume request # ev))
      else if requestType = StopRequest then
        (case handleStopRequest env fRuntime request of
           (err, ev) \<Rightarrow> (err, Invoked HandleStop request # ev))
      else (Some (ErrInvalidRequest request requestType), []))"

text \<open>
  \<open>Consume\<close> returns the delivery, with the calls made on it, and the events. The flag
  \<open>returned\<close> is true on the paths that leave the function before the call of \<open>Ack\<close>.
\<close>

definition Consume ::
  "('h, 'p) env \<Rightarrow> 'h FlowRuntime \<Rightarrow> 'p delivery \<Rightarrow> 'p delivery \<times> event list" where
  "Consume env fRuntime message =
     (case json_Unmarshal env (Payload message) of
        Inl err \<Rightarrow>
          (case delivery_call Push message of
             (Some e, m1) \<Rightarrow> (m1, [Logged (LogRejectParse err), Logged (LogPushFailed e)])
           | (None, m1) \<Rightarrow> (m1, [Logged (LogRejectParse err)]))
      | Inr task \<Rightarrow>
          (let (returned, m1, ev1) =
                 (case handleRequest env fRuntime (makeRequestFromTask task) (request_type task) of
                    (Some err, ev) \<Rightarrow>
                      (case delivery_call Push message of
                         (Some e, m1) \<Rightarrow>
                           (True, m1, ev @ [Logged (LogRejectFailure err), Logged (LogPushFailed e)])
                       | (None, m1) \<Rightarrow> (False, m1, ev @ [Logged (LogRejectFailure err)]))
                  | (None, ev) \<Rightarrow> (False, message, ev))
           in if returned then (m1, ev1)
              else (case delivery_call Ack m1 of
                      (Some e, m2) \<Rightarrow> (m2, ev1 @ [Logged (LogAckFailed e)])
                    | (None, m2) \<Rightarrow> (m2, ev1))))"

subsection \<open>The worker registry\<close>











subsection \<open>What the task queue fabric is to do\<close>

text \<open>
  The calls that \<open>initializeTaskQueues\<close> is to make for a flow whose primary queue gets
  the handle \<open>L\<close>, written from the description of the fabric and not from the code, to
  be compared with it: the primary queue and the retry queues are opened and chained,
  each is started with a prefetch of 10 and a poll of one second, the primary queue gets
  \<open>Concurrency\<close> consumers and each retry queue gets one.
\<close>

definition expected_flow_calls :: "'h FlowRuntime \<Rightarrow> nat \<Rightarrow> string \<Rightarrow> 'p rmq_call list" where
  "expected_flow_calls fRuntime L F =
     (let base = ''goflow-internal-request:'' @ F; N = nat (RetryQueueCount fRuntime) in
      [OpenQueue base L]
      @ concat (map (\<lambda>i. [OpenQueue (base @ ''-push-'' @ decimal i) (L + 1 + i),
                           SetPushQueue (L + i) (L + 1 + i)]) [0..<N])
      @ [StartConsuming L 10 Second]
      @ map (\<lambda>i. StartConsuming (L + 1 + i) 10 Second) [0..<N]
      @ map (\<lambda>j. AddConsumer L (''request-consumer-'' @ decimal j)) [0..<nat (Concurrency fRuntime)]
      @ map (\<lambda>i. AddConsumer (L + 1 + i) (''request-consumer-'' @ decimal i)) [0..<N])"

fun expected_calls :: "'h FlowRuntime \<Rightarrow> nat \<Rightarrow> string list \<Rightarrow> 'p rmq_call list" where
  "expected_calls fRuntime L [] = []"
| "expected_calls fRuntime L (F # Fs) =
     expected_flow_calls fRuntime L F
     @ expected_calls fRuntime (L + 1 + nat (RetryQueueCount fRuntime)) Fs"

fun expected_task_queues ::
  "'h FlowRuntime \<Rightarrow> (string \<rightharpoonup> nat) \<Rightarrow> nat \<Rightarrow> string list \<Rightarrow> (string \<rightharpoonup> nat)" where
  "expected_task_queues fRuntime tq L [] = tq"
| "expected_task_queues fRuntime tq L (F # Fs) =
     expected_task_queues fRuntime (tq(F \<mapsto> L)) (L + 1 + nat (RetryQueueCount fRuntime)) Fs"

text \<open>The consumers added to a queue handle, read off the calls.\<close>

fun consumers_of :: "nat \<Rightarrow> 'p rmq_call list \<Rightarrow> string list" where
  "consumers_of q [] = []"
| "consumers_of q (AddConsumer q' tag # xs) =
     (if q' = q then tag # consumers_of q xs else consumers_of q xs)"
| "consumers_of q (x # xs) = consumers_of q xs"

text \<open>
  The calls of the loop that opens and chains the retry queues, for any list of
  indices: the next handle is the one the connection gives out next.
\<close>

fun push_calls :: "string \<Rightarrow> nat list \<Rightarrow> nat \<Rightarrow> nat \<Rightarrow> 'p rmq_call list" where
  "push_calls base [] prev nxt = []"
| "push_calls base (idx # idxs) prev nxt =
     [OpenQueue (base @ ''-push-'' @ decimal idx) nxt, SetPushQueue prev nxt]
     @ push_calls base idxs nxt (Suc nxt)"

subsection \<open>The JSON of a task\<close>

text \<open>
  The codec of the runtime is \<open>encoding/json\<close> of the Go standard library. The encoder
  writes a Go string as a JSON string of valid UTF-8. It reads the string rune by rune
  with \<open>utf8.DecodeRuneInString\<close>, whose result is the length of the well formed sequence
  at the head of the string, and \<open>RuneError\<close> with the length 1 when the first byte
  starts no such sequence: \<open>rune_size\<close> is this length, and 0 for \<open>RuneError\<close>. The table
  \<open>first\<close> of the package gives for the first byte the length of its sequence and the
  range of the second byte; every further byte is a continuation byte, from 80 to BF.
\<close>

definition byte_in :: "char \<Rightarrow> nat \<Rightarrow> nat \<Rightarrow> bool" where
  "byte_in b lo hi = (lo \<le> of_char b \<and> (of_char b :: nat) \<le> hi)"

definition lead_size :: "nat \<Rightarrow> nat" where
  "lead_size x =
     (if x < 0x80 then 1 else if x < 0xC2 then 0 else if x < 0xE0 then 2
      else if x < 0xF0 then 3 else if x < 0xF5 then 4 else 0)"

definition accept_lo :: "nat \<Rightarrow> nat" where
  "accept_lo x = (if x = 0xE0 then 0xA0 else if x = 0xF0 then 0x90 else 0x80)"

definition accept_hi :: "nat \<Rightarrow> nat" where
  "accept_hi x = (if x = 0xED then 0x9F else if x = 0xF4 then 0x8F else 0xBF)"

definition rune_size :: "string \<Rightarrow> nat" where
  "rune_size s =
     (case s of
        [] \<Rightarrow> 0
      | b # rest \<Rightarrow>
          (let x = of_char b; sz = lead_size x in
           if sz \<le> 1 then sz
           else if length s < sz then 0
           else if \<not> byte_in (s ! 1) (accept_lo x) (accept_hi x) then 0
           else if sz \<le> 2 then 2
           else if \<not> byte_in (s ! 2) 0x80 0xBF then 0
           else if sz \<le> 3 then 3
           else if \<not> byte_in (s ! 3) 0x80 0xBF then 0
           else 4))"

text \<open>
  The loop of the encoder over a string: a well formed sequence is written as it is
  (an escape that the encoder writes for some of them is read back as the same bytes),
  and for a byte that starts none the encoder writes the replacement character U+FFFD,
  the bytes EF BF BD, and goes on at the next byte.
\<close>

definition replacement :: string where
  "replacement = [CHR 0xEF, CHR 0xBF, CHR 0xBD]"

function utf8 :: "string \<Rightarrow> string" where
  "utf8 [] = []"
| "utf8 (b # rest) =
     (if rune_size (b # rest) = 0 then replacement @ utf8 rest
      else take (rune_size (b # rest)) (b # rest) @ utf8 (drop (rune_size (b # rest)) (b # rest)))"
  by pat_completeness auto

termination utf8
  by (relation "measure length") simp_all

text \<open>\<open>utf8.ValidString\<close>: every byte of the string is part of a well formed sequence.\<close>

function ValidString :: "string \<Rightarrow> bool" where
  "ValidString [] = True"
| "ValidString (b # rest) =
     (if rune_size (b # rest) = 0 then False
      else ValidString (drop (rune_size (b # rest)) (b # rest)))"
  by pat_completeness auto

termination ValidString
  by (relation "measure length") simp_all

declare utf8.simps [simp del] ValidString.simps [simp del]

text \<open>
  A payload is the JSON document that its text denotes, or a text that is no JSON. The
  printer and the parser of the text are not modelled.
\<close>

datatype json =
    JNull
  | JBool bool
  | JNumber string
  | JString string
  | JArray "json list"
  | JObject "(string \<times> json) list"

datatype wire = NotJSON string | JSON json

text \<open>
  The encoder on the values of a task. The keys of a map are written in the order of
  the keys, each as a JSON string; a list of strings is written as an array.
\<close>

definition json_of_string :: "string \<Rightarrow> json" where
  "json_of_string s = JString (utf8 s)"

definition json_of_map :: "(string \<rightharpoonup> string list) \<Rightarrow> json" where
  "json_of_map m =
     JObject (map (\<lambda>k. (utf8 k, JArray (map json_of_string (the (m k)))))
                  (sorted_list_of_set (dom m)))"

definition go_json_Marshal :: "Task \<Rightarrow> wire" where
  "go_json_Marshal t =
     JSON (JObject
       [(''flow_name'', json_of_string (flow_name t)),
        (''request_id'', json_of_string (request_id t)),
        (''body'', json_of_string (body t)),
        (''header'', json_of_map (header t)),
        (''raw_query'', json_of_string (raw_query t)),
        (''query'', json_of_map (query t)),
        (''request_type'', json_of_string (request_type t))])"

text \<open>
  The decoder. A JSON string is stored in a string, and \<open>null\<close> leaves the string as it
  is; an array of strings is stored in a list, where \<open>null\<close> for an element is the empty
  string and \<open>null\<close> for the array is the nil list; the members of an object are stored
  in the map one after the other, a later member for the same key replacing an earlier
  one, and \<open>null\<close> for the object is the nil map. Any other value is an error.
\<close>

definition decode_string :: "json \<Rightarrow> string \<Rightarrow> string + string" where
  "decode_string v cur =
     (case v of
        JString s \<Rightarrow> Inr s
      | JNull \<Rightarrow> Inr cur
      | _ \<Rightarrow> Inl ''json: cannot unmarshal into Go value of type string'')"

fun decode_elements :: "json list \<Rightarrow> string + string list" where
  "decode_elements [] = Inr []"
| "decode_elements (v # vs) =
     (case decode_string v [] of
        Inl e \<Rightarrow> Inl e
      | Inr s \<Rightarrow> (case decode_elements vs of Inl e \<Rightarrow> Inl e | Inr ss \<Rightarrow> Inr (s # ss)))"

definition decode_strings :: "json \<Rightarrow> string + string list" where
  "decode_strings v =
     (case v of
        JArray vs \<Rightarrow> decode_elements vs
      | JNull \<Rightarrow> Inr []
      | _ \<Rightarrow> Inl ''json: cannot unmarshal into Go value of type []string'')"

fun decode_entries ::
  "(string \<times> json) list \<Rightarrow> (string \<rightharpoonup> string list) \<Rightarrow> string + (string \<rightharpoonup> string list)" where
  "decode_entries [] m = Inr m"
| "decode_entries ((k, v) # rest) m =
     (case decode_strings v of
        Inl e \<Rightarrow> Inl e
      | Inr ss \<Rightarrow> decode_entries rest (m(k \<mapsto> ss)))"

definition decode_map ::
  "json \<Rightarrow> (string \<rightharpoonup> string list) \<Rightarrow> string + (string \<rightharpoonup> string list)" where
  "decode_map v cur =
     (case v of
        JObject ms \<Rightarrow> decode_entries ms cur
      | JNull \<Rightarrow> Inr Map.empty
      | _ \<Rightarrow> Inl ''json: cannot unmarshal into Go value of type map[string][]string'')"

text \<open>
  The members of the object are matched with the fields of \<open>Task\<close> by their JSON tags,
  where the case of an ASCII letter does not count; a member for no field is skipped.
\<close>

definition lower :: "char \<Rightarrow> char" where
  "lower c = (if CHR ''A'' \<le> c \<and> c \<le> CHR ''Z'' then char_of (of_char c + (32 :: nat)) else c)"

definition decode_member :: "string \<Rightarrow> json \<Rightarrow> Task \<Rightarrow> string + Task" where
  "decode_member k v t =
     (let name = map lower k in
      if name = ''flow_name'' then
        (case decode_string v (flow_name t) of Inl e \<Rightarrow> Inl e | Inr s \<Rightarrow> Inr (t\<lparr>flow_name := s\<rparr>))
      else if name = ''request_id'' then
        (case decode_string v (request_id t) of Inl e \<Rightarrow> Inl e | Inr s \<Rightarrow> Inr (t\<lparr>request_id := s\<rparr>))
      else if name = ''body'' then
        (case decode_string v (body t) of Inl e \<Rightarrow> Inl e | Inr s \<Rightarrow> Inr (t\<lparr>body := s\<rparr>))
      else if name = ''header'' then
        (case decode_map v (header t) of Inl e \<Rightarrow> Inl e | Inr m \<Rightarrow> Inr (t\<lparr>header := m\<rparr>))
      else if name = ''raw_query'' then
        (case decode_string v (raw_query t) of Inl e \<Rightarrow> Inl e | Inr s \<Rightarrow> Inr (t\<lparr>raw_query := s\<rparr>))
      else if name = ''query'' then
        (case decode_map v (query t) of Inl e \<Rightarrow> Inl e | Inr m \<Rightarrow> Inr (t\<lparr>query := m\<rparr>))
      else if name = ''request_type'' then
        (case decode_string v (request_type t) of Inl e \<Rightarrow> Inl e | Inr s \<Rightarrow> Inr (t\<lparr>request_type := s\<rparr>))
      else Inr t)"

fun decode_members :: "(string \<times> json) list \<Rightarrow> Task \<Rightarrow> string + Task" where
  "decode_members [] t = Inr t"
| "decode_members ((k, v) # rest) t =
     (case decode_member k v t of Inl e \<Rightarrow> Inl e | Inr t' \<Rightarrow> decode_members rest t')"

text \<open>\<open>Consume\<close> decodes into a task whose fields are all zero.\<close>

definition zero_task :: Task where
  "zero_task =
     \<lparr>flow_name = [], request_id = [], body = [], header = Map.empty, raw_query = [],
      query = Map.empty, request_type = []\<rparr>"

definition go_json_Unmarshal :: "wire \<Rightarrow> string + Task" where
  "go_json_Unmarshal p =
     (case p of
        NotJSON s \<Rightarrow> Inl ''invalid character''
      | JSON v \<Rightarrow>
          (case v of
             JObject ms \<Rightarrow> decode_members ms zero_task
           | JNull \<Rightarrow> Inr zero_task
           | _ \<Rightarrow> Inl ''json: cannot unmarshal into Go value of type runtime.Task''))"

text \<open>
  What the strings of a request come back as, and when they come back as they were.
\<close>

definition utf8_map :: "(string \<rightharpoonup> string list) \<Rightarrow> (string \<rightharpoonup> string list)" where
  "utf8_map m =
     foldl (\<lambda>acc k. acc(utf8 k \<mapsto> map utf8 (the (m k)))) Map.empty (sorted_list_of_set (dom m))"

definition utf8_request :: "Request \<Rightarrow> Request" where
  "utf8_request r =
     \<lparr>FlowName = utf8 (FlowName r), RequestID = utf8 (RequestID r), Body = utf8 (Body r),
      Header = utf8_map (Header r), RawQuery = utf8 (RawQuery r), Query = utf8_map (Query r)\<rparr>"

definition valid_map :: "(string \<rightharpoonup> string list) \<Rightarrow> bool" where
  "valid_map m = (\<forall>k \<in> dom m. ValidString k \<and> (\<forall>v \<in> set (the (m k)). ValidString v))"

definition valid_request :: "Request \<Rightarrow> bool" where
  "valid_request r =
     (ValidString (FlowName r) \<and> ValidString (RequestID r) \<and> ValidString (Body r)
      \<and> valid_map (Header r) \<and> ValidString (RawQuery r) \<and> valid_map (Query r))"

subsection \<open>An environment for examples\<close>

text \<open>
  The payload of a task is the task itself, so that marshalling loses nothing; the
  worker's JSON is its id; the executor and the controllers succeed and every flow
  exports the text \<open>dag\<close>.
\<close>

definition ideal_env :: "(nat, Task) env" where
  "ideal_env =
     \<lparr>json_Marshal = (\<lambda>t. t), json_Unmarshal = Inr, json_Marshal_Worker = worker_id,
      executor_Init = (\<lambda>h r. None), ExecuteFlowHandler = (\<lambda>h r. None),
      PartialExecuteFlowHandler = (\<lambda>h r. None), executor_Pause = (\<lambda>h i. None),
      executor_Resume = (\<lambda>h i. None), executor_Stop = (\<lambda>h i. None),
      exporter_Export = (\<lambda>h. Inr ''dag'')\<rparr>"

text \<open>
  The same environment with the JSON codec of the standard library: the payload of a
  task is its JSON document.
\<close>

definition go_env :: "(nat, wire) env" where
  "go_env =
     \<lparr>json_Marshal = go_json_Marshal, json_Unmarshal = go_json_Unmarshal,
      json_Marshal_Worker = worker_id,
      executor_Init = (\<lambda>h r. None), ExecuteFlowHandler = (\<lambda>h r. None),
      PartialExecuteFlowHandler = (\<lambda>h r. None), executor_Pause = (\<lambda>h i. None),
      executor_Resume = (\<lambda>h i. None), executor_Stop = (\<lambda>h i. None),
      exporter_Export = (\<lambda>h. Inr ''dag'')\<rparr>"

subsection \<open>What a registration is to leave in the registry\<close>








section \<open>Properties of the stores\<close>

lemma next_fault_healthy: "faults r = [] \<Longrightarrow> next_fault r = (False, r)"
  by (simp add: next_fault_def)

lemma redis_WATCH_kv: "kv (snd (redis_WATCH key r)) = kv r"
  by (simp add: redis_WATCH_def next_fault_def split: list.splits bool.splits)

lemma redis_GET_kv: "kv (snd (redis_GET key r)) = kv r"
  by (simp add: redis_GET_def next_fault_def split: list.splits bool.splits option.splits)

lemma redis_SET_failed_kv: "redis_SET key v ttl r = (Some e, r') \<Longrightarrow> kv r' = kv r"
  by (auto simp: redis_SET_def next_fault_def split: list.splits bool.splits)

lemma Update_healthy:
  assumes "rds this = Some cl" and "faults r = []" and "path = KeyPath this @ ''.'' @ k"
  shows "RedisStateStore_Update this k old new r =
           Return (case map_of (kv r) path of
                     None \<Rightarrow> (Some (ErrNotExist path), r)
                   | Some (v, ttl) \<Rightarrow>
                       if v \<noteq> old then (Some (ErrOldValueMismatch path), r)
                       else (None, r\<lparr>kv := AList.update path (new, 0) (kv r)\<rparr>))"
  using assms
  by (simp add: RedisStateStore_Update_def redis_WATCH_def redis_GET_def redis_SET_def
      next_fault_healthy split: option.splits)

lemma Update_error_kv:
  assumes "RedisStateStore_Update this k old new r = Return (Some e, r')"
  shows "kv r' = kv r"
proof -
  let ?key = "KeyPath this @ ''.'' @ k"
  obtain w r0 where w: "redis_WATCH ?key r = (w, r0)" by (cases "redis_WATCH ?key r")
  obtain g r1 where g: "redis_GET ?key r0 = (g, r1)" by (cases "redis_GET ?key r0")
  obtain s r2 where s: "redis_SET ?key new 0 r1 = (s, r2)" by (cases "redis_SET ?key new 0 r1")
  have k0: "kv r0 = kv r" using redis_WATCH_kv [of ?key r] w by simp
  have k1: "kv r1 = kv r0" using redis_GET_kv [of ?key r0] g by simp
  have k2: "s \<noteq> None \<Longrightarrow> kv r2 = kv r1" using redis_SET_failed_kv s by fastforce
  from assms w g s k0 k1 k2 show ?thesis
    by (auto simp: RedisStateStore_Update_def Let_def split: option.splits sum.splits if_splits)
qed

text \<open>
  C1. For a store configured for a flow and a request, \<open>Update\<close> of a key reads the
  value stored at \<open>core.<flow>.<request>.<key>\<close>. While no command fails: when the key
  is absent it returns the error of the missing key and the keyspace is as it was; when
  the stored value differs from \<open>oldValue\<close> it returns the mismatch error and the
  keyspace is as it was; otherwise it stores \<open>newValue\<close> under the key and returns no
  error. Whatever fails, a call that returns an error leaves every stored value
  unchanged.
\<close>

theorem RedisStateStore_Update_compare_and_set:
  assumes "rds s = Some cl"
  shows "(faults r = [] \<longrightarrow>
            RedisStateStore_Update (RedisStateStore_Configure s flow req) k old new r =
              Return (case map_of (kv r) (''core.'' @ flow @ ''.'' @ req @ ''.'' @ k) of
                        None \<Rightarrow> (Some (ErrNotExist (''core.'' @ flow @ ''.'' @ req @ ''.'' @ k)), r)
                      | Some (v, ttl) \<Rightarrow>
                          if v \<noteq> old
                          then (Some (ErrOldValueMismatch (''core.'' @ flow @ ''.'' @ req @ ''.'' @ k)), r)
                          else (None, r\<lparr>kv := AList.update (''core.'' @ flow @ ''.'' @ req @ ''.'' @ k)
                                                 (new, 0) (kv r)\<rparr>)))
         \<and> (\<forall>e r'. RedisStateStore_Update (RedisStateStore_Configure s flow req) k old new r
                       = Return (Some e, r') \<longrightarrow> kv r' = kv r)"
proof -
  let ?st = "RedisStateStore_Configure s flow req"
  have c: "rds ?st = Some cl" "KeyPath ?st = ''core.'' @ flow @ ''.'' @ req"
    using assms by (simp_all add: RedisStateStore_Configure_def)
  show ?thesis
  proof (intro conjI impI allI)
    assume "faults r = []"
    from Update_healthy [OF c(1) this, of "''core.'' @ flow @ ''.'' @ req @ ''.'' @ k" k old new] c(2)
    show "RedisStateStore_Update ?st k old new r =
              Return (case map_of (kv r) (''core.'' @ flow @ ''.'' @ req @ ''.'' @ k) of
                        None \<Rightarrow> (Some (ErrNotExist (''core.'' @ flow @ ''.'' @ req @ ''.'' @ k)), r)
                      | Some (v, ttl) \<Rightarrow>
                          if v \<noteq> old
                          then (Some (ErrOldValueMismatch (''core.'' @ flow @ ''.'' @ req @ ''.'' @ k)), r)
                          else (None, r\<lparr>kv := AList.update (''core.'' @ flow @ ''.'' @ req @ ''.'' @ k)
                                                 (new, 0) (kv r)\<rparr>))"
      by simp
  next
    fix e r'
    assume "RedisStateStore_Update ?st k old new r = Return (Some e, r')"
    then show "kv r' = kv r" by (rule Update_error_kv)
  qed
qed

theorem RedisStateStore_Update_compare_and_set_witness:
  "RedisStateStore_Update
      (RedisStateStore_Configure \<lparr>KeyPath = [], rds = Some UniversalClient, RetryCount = 0\<rparr> ''f'' ''r1'')
      ''k'' ''a'' ''b'' \<lparr>kv = [(''core.f.r1.k'', ''a'', 0)], faults = []\<rparr>
     = Return (None, \<lparr>kv = [(''core.f.r1.k'', ''b'', 0)], faults = []\<rparr>)
   \<and> RedisStateStore_Update
      (RedisStateStore_Configure \<lparr>KeyPath = [], rds = Some UniversalClient, RetryCount = 0\<rparr> ''f'' ''r1'')
      ''k'' ''x'' ''b'' \<lparr>kv = [(''core.f.r1.k'', ''a'', 0)], faults = []\<rparr>
     = Return (Some (ErrOldValueMismatch ''core.f.r1.k''), \<lparr>kv = [(''core.f.r1.k'', ''a'', 0)], faults = []\<rparr>)
   \<and> RedisStateStore_Update
      (RedisStateStore_Configure \<lparr>KeyPath = [], rds = Some UniversalClient, RetryCount = 0\<rparr> ''f'' ''r1'')
      ''j'' ''a'' ''b'' \<lparr>kv = [(''core.f.r1.k'', ''a'', 0)], faults = []\<rparr>
     = Return (Some (ErrNotExist ''core.f.r1.j''), \<lparr>kv = [(''core.f.r1.k'', ''a'', 0)], faults = []\<rparr>)"
proof -
  let ?s = "\<lparr>KeyPath = [], rds = Some UniversalClient, RetryCount = 0\<rparr>"
  let ?r = "\<lparr>kv = [(''core.f.r1.k'', ''a'', 0)], faults = []\<rparr>"
  have a: "rds ?s = Some UniversalClient" by simp
  have b: "faults ?r = []" by simp
  note cas = RedisStateStore_Update_compare_and_set [OF a, THEN conjunct1, THEN mp, OF b]
  show ?thesis
    using cas [of "''f''" "''r1''" "''k''" "''a''" "''b''"]
          cas [of "''f''" "''r1''" "''k''" "''x''" "''b''"]
          cas [of "''f''" "''r1''" "''j''" "''a''" "''b''"]
    by simp
qed

lemma glob_all: "glob ''*'' s"
  by (induction s) simp_all

lemma glob_prefix:
  "\<forall>c \<in> set p. c \<noteq> CHR ''['' \<and> c \<noteq> CHR 0x5C \<Longrightarrow> glob q t \<Longrightarrow> glob (p @ q) (p @ t)"
  by (induction p) simp_all

lemma glob_namespace:
  assumes "\<forall>c \<in> set p. c \<noteq> CHR ''['' \<and> c \<noteq> CHR 0x5C"
  shows "glob (p @ ''.*'') (p @ ''.'' @ k)"
proof -
  have "glob ''.*'' (''.'' @ k)" using glob_all [of k] by simp
  with assms show ?thesis by (rule glob_prefix)
qed

lemma cleanup_loop_success:
  "cleanup_loop ks rerr r = (None, r') \<Longrightarrow>
     rerr = None \<and> kv r' = filter (\<lambda>e. fst e \<notin> set ks) (kv r)"
proof (induction ks arbitrary: rerr r)
  case Nil
  then show ?case by simp
next
  case (Cons k ks)
  obtain d r1 where d: "redis_DEL k r = (d, r1)" by (cases "redis_DEL k r")
  show ?case
  proof (cases d)
    case None
    with Cons.prems d have "cleanup_loop ks rerr r1 = (None, r')" by simp
    from Cons.IH [OF this] have ih: "rerr = None" "kv r' = filter (\<lambda>e. fst e \<notin> set ks) (kv r1)"
      by simp_all
    from d None have "kv r1 = AList.delete k (kv r)"
      by (auto simp: redis_DEL_def next_fault_def split: list.splits bool.splits)
    with ih show ?thesis by (auto simp: AList.delete_eq case_prod_unfold intro: filter_cong)
  next
    case (Some e)
    with Cons.prems d have "cleanup_loop ks (Some e) r1 = (None, r')" by simp
    from Cons.IH [OF this] show ?thesis by simp
  qed
qed

lemma scan_and_delete_success:
  assumes "scan_and_delete pat r = (None, r')"
  shows "kv r' = filter (\<lambda>e. \<not> glob pat (fst e)) (kv r)"
proof -
  obtain sc r1 where sc: "redis_SCAN pat r = (sc, r1)" by (cases "redis_SCAN pat r")
  with assms obtain keys where keys: "sc = Inr keys" "cleanup_loop keys None r1 = (None, r')"
    by (cases sc) (auto simp: scan_and_delete_def)
  from sc keys(1) have r1: "kv r1 = kv r" "keys = filter (glob pat) (map fst (kv r))"
    by (auto simp: redis_SCAN_def next_fault_def split: list.splits bool.splits)
  from cleanup_loop_success [OF keys(2)] r1 show ?thesis
    by (auto intro: filter_cong)
qed

lemma scan_and_delete_nothing:
  assumes "faults r = []" and "\<forall>e \<in> set (kv r). \<not> glob pat (fst e)"
  shows "scan_and_delete pat r = (None, r)"
proof -
  from assms(2) have "filter (glob pat) (map fst (kv r)) = []"
    by (auto simp: filter_empty_conv)
  with assms(1) show ?thesis
    by (simp add: scan_and_delete_def redis_SCAN_def next_fault_healthy)
qed

lemma scan_and_delete_twice:
  assumes "scan_and_delete pat r = (None, r')" and "faults r' = []"
  shows "scan_and_delete pat r' = (None, r')"
proof (rule scan_and_delete_nothing [OF assms(2)])
  from scan_and_delete_success [OF assms(1)]
  show "\<forall>e \<in> set (kv r'). \<not> glob pat (fst e)" by simp
qed

lemma scan_and_delete_absent:
  assumes "scan_and_delete pat r = (None, r')" and "glob pat key"
  shows "map_of (kv r') key = None"
proof -
  from scan_and_delete_success [OF assms(1)] assms(2)
  have "key \<notin> fst ` set (kv r')" by auto
  then show ?thesis by (simp add: map_of_eq_None_iff)
qed


lemma redis_DEL_healthy:
  "faults r = [] \<Longrightarrow> redis_DEL k r = (None, r\<lparr>kv := AList.delete k (kv r)\<rparr>)"
  by (simp add: redis_DEL_def next_fault_healthy)

lemma cleanup_loop_healthy:
  "faults r = [] \<Longrightarrow>
     cleanup_loop ks rerr r = (rerr, r\<lparr>kv := filter (\<lambda>e. fst e \<notin> set ks) (kv r)\<rparr>)"
proof (induction ks arbitrary: r)
  case Nil
  then show ?case by simp
next
  case (Cons k ks)
  let ?r1 = "r\<lparr>kv := AList.delete k (kv r)\<rparr>"
  have f: "faults ?r1 = []" using Cons.prems by simp
  have "filter (\<lambda>e. fst e \<notin> set ks) (AList.delete k (kv r))
          = filter (\<lambda>e. fst e \<notin> set (k # ks)) (kv r)"
    by (auto simp: AList.delete_eq case_prod_unfold intro: filter_cong)
  with Cons.IH [OF f] redis_DEL_healthy [OF Cons.prems, of k] show ?case by simp
qed

lemma scan_and_delete_healthy:
  assumes "faults r = []"
  shows "scan_and_delete pat r = (None, r\<lparr>kv := filter (\<lambda>e. \<not> glob pat (fst e)) (kv r)\<rparr>)"
proof -
  have "filter (\<lambda>e. fst e \<notin> set (filter (glob pat) (map fst (kv r)))) (kv r)
          = filter (\<lambda>e. \<not> glob pat (fst e)) (kv r)"
    by (auto intro: filter_cong)
  with assms cleanup_loop_healthy [OF assms, of "filter (glob pat) (map fst (kv r))" None]
  show ?thesis
    by (simp add: scan_and_delete_def redis_SCAN_def next_fault_healthy)
qed

text \<open>
  C7 (as amended). With no command failing, \<open>Cleanup\<close> of either store returns no
  error and removes exactly the keys that match its pattern, the namespace followed by
  \<open>.*\<close>. After a \<open>Cleanup\<close> that returned no error, a second \<open>Cleanup\<close> during which no
  command fails returns no error and leaves the server as it is. When the flow name and
  the request id contain neither an opening bracket nor a backslash, no key
  \<open>core.<flow>.<request>.<k>\<close> (for the data store, no key
  \<open>core-<flow>-<request>.<k>.value\<close>) is left after a \<open>Cleanup\<close> that returned no error.
\<close>

theorem Cleanup_namespace_idempotent:
  assumes "rds s = Some cl" and "redisClient d = Some cl'"
  shows
    "(faults r = [] \<longrightarrow>
        RedisStateStore_Cleanup (RedisStateStore_Configure s flow req) r =
          Return (None, r\<lparr>kv := filter (\<lambda>e. \<not> glob (''core.'' @ flow @ ''.'' @ req @ ''.*'') (fst e)) (kv r)\<rparr>)
      \<and> RedisDataStore_Cleanup (RedisDataStore_Configure d flow req) r =
          Return (None, r\<lparr>kv := filter (\<lambda>e. \<not> glob (''core-'' @ flow @ ''-'' @ req @ ''.*'') (fst e)) (kv r)\<rparr>))
   \<and> (RedisStateStore_Cleanup (RedisStateStore_Configure s flow req) r = Return (None, r1) \<longrightarrow>
        (faults r1 = [] \<longrightarrow>
           RedisStateStore_Cleanup (RedisStateStore_Configure s flow req) r1 = Return (None, r1))
      \<and> ((\<forall>c \<in> set (flow @ req). c \<noteq> CHR ''['' \<and> c \<noteq> CHR 0x5C) \<longrightarrow>
           (\<forall>k. map_of (kv r1) (''core.'' @ flow @ ''.'' @ req @ ''.'' @ k) = None)))
   \<and> (RedisDataStore_Cleanup (RedisDataStore_Configure d flow req) r = Return (None, r2) \<longrightarrow>
        (faults r2 = [] \<longrightarrow>
           RedisDataStore_Cleanup (RedisDataStore_Configure d flow req) r2 = Return (None, r2))
      \<and> ((\<forall>c \<in> set (flow @ req). c \<noteq> CHR ''['' \<and> c \<noteq> CHR 0x5C) \<longrightarrow>
           (\<forall>k. map_of (kv r2) (getPath (''core-'' @ flow @ ''-'' @ req) k) = None)))"
proof -
  let ?sp = "''core.'' @ flow @ ''.'' @ req @ ''.*''"
  let ?dp = "''core-'' @ flow @ ''-'' @ req @ ''.*''"
  have sc: "RedisStateStore_Cleanup (RedisStateStore_Configure s flow req) x =
              Return (case scan_and_delete ?sp x of (rerr, r') \<Rightarrow> (map_option ErrRedis rerr, r'))" for x
    using assms(1) by (simp add: RedisStateStore_Cleanup_def RedisStateStore_Configure_def)
  have dc: "RedisDataStore_Cleanup (RedisDataStore_Configure d flow req) x =
              Return (case scan_and_delete ?dp x of (rerr, r') \<Rightarrow> (map_option ErrRedis rerr, r'))" for x
    using assms(2) by (simp add: RedisDataStore_Cleanup_def RedisDataStore_Configure_def)
  have ok: "(case scan_and_delete pat x of (rerr, r') \<Rightarrow> (map_option ErrRedis rerr, r')) = (None, y)
              \<longleftrightarrow> scan_and_delete pat x = (None, y)" for pat x y
    by (cases "scan_and_delete pat x") auto
  have healthy: "faults r = [] \<longrightarrow>
        RedisStateStore_Cleanup (RedisStateStore_Configure s flow req) r =
          Return (None, r\<lparr>kv := filter (\<lambda>e. \<not> glob ?sp (fst e)) (kv r)\<rparr>)
      \<and> RedisDataStore_Cleanup (RedisDataStore_Configure d flow req) r =
          Return (None, r\<lparr>kv := filter (\<lambda>e. \<not> glob ?dp (fst e)) (kv r)\<rparr>)"
    by (simp add: sc dc scan_and_delete_healthy)
  have state: "(faults r1 = [] \<longrightarrow>
           RedisStateStore_Cleanup (RedisStateStore_Configure s flow req) r1 = Return (None, r1))
      \<and> ((\<forall>c \<in> set (flow @ req). c \<noteq> CHR ''['' \<and> c \<noteq> CHR 0x5C) \<longrightarrow>
           (\<forall>k. map_of (kv r1) (''core.'' @ flow @ ''.'' @ req @ ''.'' @ k) = None))"
    if "RedisStateStore_Cleanup (RedisStateStore_Configure s flow req) r = Return (None, r1)"
  proof -
    from that have sd: "scan_and_delete ?sp r = (None, r1)" by (simp add: sc ok)
    have again: "faults r1 = [] \<Longrightarrow> scan_and_delete ?sp r1 = (None, r1)"
      using sd by (rule scan_and_delete_twice)
    have gone: "map_of (kv r1) (''core.'' @ flow @ ''.'' @ req @ ''.'' @ k) = None"
      if safe: "\<forall>c \<in> set (flow @ req). c \<noteq> CHR ''['' \<and> c \<noteq> CHR 0x5C" for k
    proof -
      from safe have "\<forall>c \<in> set (''core.'' @ flow @ ''.'' @ req). c \<noteq> CHR ''['' \<and> c \<noteq> CHR 0x5C"
        by auto
      from glob_namespace [OF this, of k] have "glob ?sp (''core.'' @ flow @ ''.'' @ req @ ''.'' @ k)"
        by simp
      with sd show ?thesis by (rule scan_and_delete_absent)
    qed
    from again gone show ?thesis by (simp add: sc)
  qed
  have data: "(faults r2 = [] \<longrightarrow>
           RedisDataStore_Cleanup (RedisDataStore_Configure d flow req) r2 = Return (None, r2))
      \<and> ((\<forall>c \<in> set (flow @ req). c \<noteq> CHR ''['' \<and> c \<noteq> CHR 0x5C) \<longrightarrow>
           (\<forall>k. map_of (kv r2) (getPath (''core-'' @ flow @ ''-'' @ req) k) = None))"
    if "RedisDataStore_Cleanup (RedisDataStore_Configure d flow req) r = Return (None, r2)"
  proof -
    from that have sd: "scan_and_delete ?dp r = (None, r2)" by (simp add: dc ok)
    have again: "faults r2 = [] \<Longrightarrow> scan_and_delete ?dp r2 = (None, r2)"
      using sd by (rule scan_and_delete_twice)
    have gone: "map_of (kv r2) (getPath (''core-'' @ flow @ ''-'' @ req) k) = None"
      if safe: "\<forall>c \<in> set (flow @ req). c \<noteq> CHR ''['' \<and> c \<noteq> CHR 0x5C" for k
    proof -
      from safe have "\<forall>c \<in> set (''core-'' @ flow @ ''-'' @ req). c \<noteq> CHR ''['' \<and> c \<noteq> CHR 0x5C"
        by auto
      from glob_namespace [OF this, of "k @ ''.value''"]
      have "glob ?dp (getPath (''core-'' @ flow @ ''-'' @ req) k)"
        by (simp add: getPath_def)
      with sd show ?thesis by (rule scan_and_delete_absent)
    qed
    from again gone show ?thesis by (simp add: dc)
  qed
  from healthy state data show ?thesis by blast
qed


theorem Cleanup_namespace_idempotent_witness:
  "RedisStateStore_Cleanup
      (RedisStateStore_Configure \<lparr>KeyPath = [], rds = Some UniversalClient, RetryCount = 0\<rparr> ''f'' ''r1'')
      \<lparr>kv = [(''core.f.r1.a'', ''1'', 0), (''core.g.r1.a'', ''2'', 0), (''core-f-r1.x.value'', ''3'', 0)],
       faults = []\<rparr>
     = Return (None, \<lparr>kv = [(''core.g.r1.a'', ''2'', 0), (''core-f-r1.x.value'', ''3'', 0)], faults = []\<rparr>)
   \<and> RedisStateStore_Cleanup
      (RedisStateStore_Configure \<lparr>KeyPath = [], rds = Some UniversalClient, RetryCount = 0\<rparr> ''f'' ''r1'')
      \<lparr>kv = [(''core.g.r1.a'', ''2'', 0), (''core-f-r1.x.value'', ''3'', 0)], faults = []\<rparr>
     = Return (None, \<lparr>kv = [(''core.g.r1.a'', ''2'', 0), (''core-f-r1.x.value'', ''3'', 0)], faults = []\<rparr>)
   \<and> map_of [(''core.g.r1.a'', ''2'', 0::nat), (''core-f-r1.x.value'', ''3'', 0)] ''core.f.r1.a'' = None
   \<and> RedisDataStore_Cleanup
      (RedisDataStore_Configure \<lparr>bucketName = [], redisClient = Some UniversalClient\<rparr> ''f'' ''r1'')
      \<lparr>kv = [(''core.f.r1.a'', ''1'', 0), (''core.g.r1.a'', ''2'', 0), (''core-f-r1.x.value'', ''3'', 0)],
       faults = []\<rparr>
     = Return (None, \<lparr>kv = [(''core.f.r1.a'', ''1'', 0), (''core.g.r1.a'', ''2'', 0)], faults = []\<rparr>)
   \<and> RedisDataStore_Cleanup
      (RedisDataStore_Configure \<lparr>bucketName = [], redisClient = Some UniversalClient\<rparr> ''f'' ''r1'')
      \<lparr>kv = [(''core.f.r1.a'', ''1'', 0), (''core.g.r1.a'', ''2'', 0)], faults = []\<rparr>
     = Return (None, \<lparr>kv = [(''core.f.r1.a'', ''1'', 0), (''core.g.r1.a'', ''2'', 0)], faults = []\<rparr>)"
proof -
  let ?s = "\<lparr>KeyPath = [], rds = Some UniversalClient, RetryCount = 0\<rparr>"
  let ?d = "\<lparr>bucketName = [], redisClient = Some UniversalClient\<rparr>"
  let ?r = "\<lparr>kv = [(''core.f.r1.a'', ''1'', 0), (''core.g.r1.a'', ''2'', 0), (''core-f-r1.x.value'', ''3'', 0)],
             faults = []\<rparr>"
  let ?r1 = "\<lparr>kv = [(''core.g.r1.a'', ''2'', 0), (''core-f-r1.x.value'', ''3'', 0)], faults = []\<rparr>"
  let ?r2 = "\<lparr>kv = [(''core.f.r1.a'', ''1'', 0), (''core.g.r1.a'', ''2'', 0)], faults = []\<rparr>"
  have a: "rds ?s = Some UniversalClient" and b: "redisClient ?d = Some UniversalClient" by simp_all
  note th = Cleanup_namespace_idempotent [OF a b, of ?r "''f''" "''r1''" ?r1 ?r2]
  have first: "RedisStateStore_Cleanup (RedisStateStore_Configure ?s ''f'' ''r1'') ?r = Return (None, ?r1)"
    "RedisDataStore_Cleanup (RedisDataStore_Configure ?d ''f'' ''r1'') ?r = Return (None, ?r2)"
    using th [THEN conjunct1] by simp_all
  from th [THEN conjunct2, THEN conjunct1, THEN mp, OF first(1)]
  have second: "RedisStateStore_Cleanup (RedisStateStore_Configure ?s ''f'' ''r1'') ?r1 = Return (None, ?r1)"
    and gone: "map_of (kv ?r1) (''core.'' @ ''f'' @ ''.'' @ ''r1'' @ ''.'' @ ''a'') = None"
    by simp_all
  from th [THEN conjunct2, THEN conjunct2, THEN mp, OF first(2)]
  have third: "RedisDataStore_Cleanup (RedisDataStore_Configure ?d ''f'' ''r1'') ?r2 = Return (None, ?r2)"
    by simp
  from first second gone third show ?thesis by simp
qed

text \<open>
  C7, as stated for every namespace, fails: the pattern is not quoted, so for the
  flow name \<open>[a]\<close> it reads a character class. The key that \<open>Set\<close> stored under the
  namespace is not matched, \<open>Cleanup\<close> returns no error, and \<open>Get\<close> still finds the key.
\<close>

theorem Cleanup_glob_namespace_counterexample:
  "RedisStateStore_Set
      (RedisStateStore_Configure \<lparr>KeyPath = [], rds = Some UniversalClient, RetryCount = 0\<rparr> ''[a]'' ''r1'')
      ''k'' ''v'' \<lparr>kv = [], faults = []\<rparr>
     = Return (None, \<lparr>kv = [(''core.[a].r1.k'', ''v'', 0)], faults = []\<rparr>)
   \<and> RedisStateStore_Cleanup
      (RedisStateStore_Configure \<lparr>KeyPath = [], rds = Some UniversalClient, RetryCount = 0\<rparr> ''[a]'' ''r1'')
      \<lparr>kv = [(''core.[a].r1.k'', ''v'', 0)], faults = []\<rparr>
     = Return (None, \<lparr>kv = [(''core.[a].r1.k'', ''v'', 0)], faults = []\<rparr>)
   \<and> RedisStateStore_Get
      (RedisStateStore_Configure \<lparr>KeyPath = [], rds = Some UniversalClient, RetryCount = 0\<rparr> ''[a]'' ''r1'')
      ''k'' \<lparr>kv = [(''core.[a].r1.k'', ''v'', 0)], faults = []\<rparr>
     = Return (Inr ''v'', \<lparr>kv = [(''core.[a].r1.k'', ''v'', 0)], faults = []\<rparr>)"
  by (simp add: RedisStateStore_Set_def RedisStateStore_Cleanup_def RedisStateStore_Get_def
      RedisStateStore_Configure_def scan_and_delete_def redis_SCAN_def redis_SET_def redis_GET_def
      next_fault_def)

lemma Get_healthy:
  assumes "rds this = Some cl" and "faults r = []" and "path = KeyPath this @ ''.'' @ k"
  shows "RedisStateStore_Get this k r =
           Return (case map_of (kv r) path of
                     None \<Rightarrow> (Inl (ErrGetNil path), r)
                   | Some (v, ttl) \<Rightarrow> (Inr v, r))"
  using assms
  by (simp add: RedisStateStore_Get_def redis_GET_def next_fault_healthy split: option.splits)

lemma DataStore_Get_healthy:
  assumes "redisClient this = Some cl" and "faults r = []" and "path = getPath (bucketName this) k"
  shows "RedisDataStore_Get this k r =
           (case map_of (kv r) path of
              None \<Rightarrow> (Inl (ErrReading path RedisNil), r)
            | Some (v, ttl) \<Rightarrow> (Inr v, r))"
  using assms
  by (simp add: RedisDataStore_Get_def redis_GET_def next_fault_healthy split: option.splits)

text \<open>
  C4. After \<open>Configure\<close> with a flow and a request, and while no command fails, the state
  store's \<open>Set\<close>, \<open>Get\<close>, \<open>Update\<close> and \<open>Incr\<close> of a key \<open>k\<close> write and read the Redis
  key \<open>core.<flow>.<request>.<k>\<close>, and the data store's \<open>Set\<close>, \<open>Get\<close> and \<open>Del\<close> write,
  read and delete the Redis key \<open>core-<flow>-<request>.<k>.value\<close>.
\<close>

theorem Configure_full_paths:
  assumes "rds s = Some cl" and "redisClient d = Some cl'" and "faults r = []"
  shows
    "RedisStateStore_Set (RedisStateStore_Configure s flow req) k v r =
       Return (None, r\<lparr>kv := AList.update (''core.'' @ flow @ ''.'' @ req @ ''.'' @ k) (v, 0) (kv r)\<rparr>)
   \<and> RedisStateStore_Get (RedisStateStore_Configure s flow req) k r =
       Return (case map_of (kv r) (''core.'' @ flow @ ''.'' @ req @ ''.'' @ k) of
                 None \<Rightarrow> (Inl (ErrGetNil (''core.'' @ flow @ ''.'' @ req @ ''.'' @ k)), r)
               | Some (v', ttl) \<Rightarrow> (Inr v', r))
   \<and> RedisStateStore_Update (RedisStateStore_Configure s flow req) k old v r =
       Return (case map_of (kv r) (''core.'' @ flow @ ''.'' @ req @ ''.'' @ k) of
                 None \<Rightarrow> (Some (ErrNotExist (''core.'' @ flow @ ''.'' @ req @ ''.'' @ k)), r)
               | Some (v', ttl) \<Rightarrow>
                   if v' \<noteq> old
                   then (Some (ErrOldValueMismatch (''core.'' @ flow @ ''.'' @ req @ ''.'' @ k)), r)
                   else (None, r\<lparr>kv := AList.update (''core.'' @ flow @ ''.'' @ req @ ''.'' @ k)
                                          (v, 0) (kv r)\<rparr>))
   \<and> RedisStateStore_Incr (RedisStateStore_Configure s flow req) k delta r =
       Return (redis_INCRBY (''core.'' @ flow @ ''.'' @ req @ ''.'' @ k) delta r)
   \<and> RedisDataStore_Set (RedisDataStore_Configure d flow req) k v r =
       (None, r\<lparr>kv := AList.update (''core-'' @ flow @ ''-'' @ req @ ''.'' @ k @ ''.value'') (v, 0) (kv r)\<rparr>)
   \<and> RedisDataStore_Get (RedisDataStore_Configure d flow req) k r =
       (case map_of (kv r) (''core-'' @ flow @ ''-'' @ req @ ''.'' @ k @ ''.value'') of
          None \<Rightarrow> (Inl (ErrReading (''core-'' @ flow @ ''-'' @ req @ ''.'' @ k @ ''.value'') RedisNil), r)
        | Some (v', ttl) \<Rightarrow> (Inr v', r))
   \<and> RedisDataStore_Del (RedisDataStore_Configure d flow req) k r =
       (None, r\<lparr>kv := AList.delete (''core-'' @ flow @ ''-'' @ req @ ''.'' @ k @ ''.value'') (kv r)\<rparr>)"
proof -
  let ?st = "RedisStateStore_Configure s flow req"
  let ?ds = "RedisDataStore_Configure d flow req"
  let ?sp = "''core.'' @ flow @ ''.'' @ req @ ''.'' @ k"
  let ?dp = "''core-'' @ flow @ ''-'' @ req @ ''.'' @ k @ ''.value''"
  have st: "rds ?st = Some cl" "?sp = KeyPath ?st @ ''.'' @ k"
    using assms(1) by (simp_all add: RedisStateStore_Configure_def)
  have ds: "redisClient ?ds = Some cl'" "?dp = getPath (bucketName ?ds) k"
    using assms(2) by (simp_all add: RedisDataStore_Configure_def getPath_def)
  have 1: "RedisStateStore_Set ?st k v r = Return (None, r\<lparr>kv := AList.update ?sp (v, 0) (kv r)\<rparr>)"
    using assms(1,3)
    by (simp add: RedisStateStore_Set_def RedisStateStore_Configure_def redis_SET_def next_fault_healthy)
  note 2 = Get_healthy [OF st(1) assms(3) st(2)]
  note 3 = Update_healthy [OF st(1) assms(3) st(2), of old v]
  have 7: "RedisStateStore_Incr ?st k delta r = Return (redis_INCRBY ?sp delta r)"
    using assms(1) by (simp add: RedisStateStore_Incr_def RedisStateStore_Configure_def)
  have 4: "RedisDataStore_Set ?ds k v r = (None, r\<lparr>kv := AList.update ?dp (v, 0) (kv r)\<rparr>)"
    using assms(2,3)
    by (simp add: RedisDataStore_Set_def RedisDataStore_Configure_def getPath_def redis_SET_def
        next_fault_healthy)
  note 5 = DataStore_Get_healthy [OF ds(1) assms(3) ds(2)]
  have 6: "RedisDataStore_Del ?ds k r = (None, r\<lparr>kv := AList.delete ?dp (kv r)\<rparr>)"
    using assms(2,3)
    by (simp add: RedisDataStore_Del_def RedisDataStore_Configure_def getPath_def redis_DEL_def
        next_fault_healthy)
  from 1 2 3 4 5 6 7 show ?thesis by blast
qed

theorem Configure_full_paths_witness:
  "RedisStateStore_Set
      (RedisStateStore_Configure \<lparr>KeyPath = [], rds = Some UniversalClient, RetryCount = 0\<rparr> ''f'' ''r1'')
      ''k'' ''v'' \<lparr>kv = [], faults = []\<rparr>
     = Return (None, \<lparr>kv = [(''core.f.r1.k'', ''v'', 0)], faults = []\<rparr>)
   \<and> RedisStateStore_Get
      (RedisStateStore_Configure \<lparr>KeyPath = [], rds = Some UniversalClient, RetryCount = 0\<rparr> ''f'' ''r1'')
      ''k'' \<lparr>kv = [(''core.f.r1.k'', ''v'', 0)], faults = []\<rparr>
     = Return (Inr ''v'', \<lparr>kv = [(''core.f.r1.k'', ''v'', 0)], faults = []\<rparr>)
   \<and> RedisStateStore_Incr
      (RedisStateStore_Configure \<lparr>KeyPath = [], rds = Some UniversalClient, RetryCount = 0\<rparr> ''f'' ''r1'')
      ''n'' 1 \<lparr>kv = [(''core.f.r1.n'', ''41'', 0)], faults = []\<rparr>
     = Return (Inr 42, \<lparr>kv = [(''core.f.r1.n'', ''42'', 0)], faults = []\<rparr>)
   \<and> RedisDataStore_Set
      (RedisDataStore_Configure \<lparr>bucketName = [], redisClient = Some UniversalClient\<rparr> ''f'' ''r1'')
      ''k'' ''v'' \<lparr>kv = [], faults = []\<rparr>
     = (None, \<lparr>kv = [(''core-f-r1.k.value'', ''v'', 0)], faults = []\<rparr>)
   \<and> RedisDataStore_Get
      (RedisDataStore_Configure \<lparr>bucketName = [], redisClient = Some UniversalClient\<rparr> ''f'' ''r1'')
      ''k'' \<lparr>kv = [(''core-f-r1.k.value'', ''v'', 0)], faults = []\<rparr>
     = (Inr ''v'', \<lparr>kv = [(''core-f-r1.k.value'', ''v'', 0)], faults = []\<rparr>)"
proof -
  let ?s = "\<lparr>KeyPath = [], rds = Some UniversalClient, RetryCount = 0\<rparr>"
  let ?d = "\<lparr>bucketName = [], redisClient = Some UniversalClient\<rparr>"
  have a: "rds ?s = Some UniversalClient" and b: "redisClient ?d = Some UniversalClient" by simp_all
  have c0: "faults \<lparr>kv = [], faults = []\<rparr> = []"
    and c1: "faults \<lparr>kv = [(''core.f.r1.k'', ''v'', 0)], faults = []\<rparr> = []"
    and c2: "faults \<lparr>kv = [(''core-f-r1.k.value'', ''v'', 0)], faults = []\<rparr> = []"
    and c3: "faults \<lparr>kv = [(''core.f.r1.n'', ''41'', 0)], faults = []\<rparr> = []" by simp_all
  have incr: "redis_INCRBY ''core.f.r1.n'' 1 \<lparr>kv = [(''core.f.r1.n'', ''41'', 0)], faults = []\<rparr>
                = (Inr 42, \<lparr>kv = [(''core.f.r1.n'', ''42'', 0)], faults = []\<rparr>)"
    by code_simp
  show ?thesis
    using Configure_full_paths
            [OF a b c0, where flow = "''f''" and req = "''r1''" and k = "''k''" and v = "''v''"]
          Configure_full_paths
            [OF a b c1, where flow = "''f''" and req = "''r1''" and k = "''k''" and v = "''v''"]
          Configure_full_paths
            [OF a b c2, where flow = "''f''" and req = "''r1''" and k = "''k''" and v = "''v''"]
          Configure_full_paths
            [OF a b c3, where flow = "''f''" and req = "''r1''" and k = "''n''" and delta = 1]
          incr
    by simp
qed

section \<open>Properties of the runtime\<close>

lemma check_registered_dup:
  "\<exists>n \<in> fst ` set flows. map_of registry n \<noteq> None \<Longrightarrow>
     \<exists>n \<in> fst ` set flows. map_of registry n \<noteq> None
        \<and> check_registered registry flows acc = Inl (ErrAlreadyRegistered n)"
proof (induction flows arbitrary: acc)
  case Nil
  then show ?case by simp
next
  case (Cons f flows)
  obtain name h where f: "f = (name, h)" by (cases f)
  show ?case
  proof (cases "map_of registry name")
    case None
    with Cons.prems f have "\<exists>n \<in> fst ` set flows. map_of registry n \<noteq> None" by auto
    from Cons.IH [OF this, of "acc @ [name]"] None f show ?thesis by auto
  next
    case (Some x)
    with f show ?thesis by auto
  qed
qed

lemma check_registered_fresh:
  "\<forall>n \<in> fst ` set flows. map_of registry n = None \<Longrightarrow>
     check_registered registry flows acc = Inr (acc @ map fst flows)"
  by (induction flows arbitrary: acc) auto

text \<open>
  C8. \<open>Register\<close> checks every name of the map before it sets any. With a connection:
  when a name of the map is already in the registry, it returns the error of a
  registered name for such a name, and the runtime (its registry included) and the
  broker are as they were; for the empty map it returns nil and changes nothing; when no
  name is registered and the runtime is not in worker mode, it sets every flow of the
  map. With a nil connection pointer it returns the error of the missing connection and
  changes nothing. (On the nil interface the test \<open>IsNil\<close> itself panics, before anything
  is changed.)
\<close>

theorem Register_atomic:
  "(rmqConnection fRuntime = Connection \<longrightarrow>
      (\<exists>n \<in> fst ` set flows. map_of (Flows fRuntime) n \<noteq> None) \<longrightarrow>
      (\<exists>n \<in> fst ` set flows. map_of (Flows fRuntime) n \<noteq> None
          \<and> Register fRuntime flows c = Return (Some (ErrAlreadyRegistered n), fRuntime, c, [])))
   \<and> (rmqConnection fRuntime = NilPointer \<longrightarrow>
         Register fRuntime flows c = Return (Some ErrRegisterNoConnection, fRuntime, c, []))
   \<and> (rmqConnection fRuntime = Connection \<longrightarrow>
         Register fRuntime [] c = Return (None, fRuntime, c, []))
   \<and> (rmqConnection fRuntime = NilInterface \<longrightarrow> Register fRuntime flows c = Panic)
   \<and> (rmqConnection fRuntime = Connection \<longrightarrow> flows \<noteq> [] \<longrightarrow> \<not> workerMode fRuntime \<longrightarrow>
         (\<forall>n \<in> fst ` set flows. map_of (Flows fRuntime) n = None) \<longrightarrow>
         Register fRuntime flows c =
           Return (None, fRuntime\<lparr>Flows := set_flows (Flows fRuntime) flows\<rparr>, c,
                   [LogQueueWorkersStarted (map fst flows)]))"
proof (intro conjI impI)
  assume conn: "rmqConnection fRuntime = Connection"
    and dup: "\<exists>n \<in> fst ` set flows. map_of (Flows fRuntime) n \<noteq> None"
  then have ne: "flows \<noteq> []" by auto
  from check_registered_dup [OF dup, of "[]"] obtain n where
    n: "n \<in> fst ` set flows" "map_of (Flows fRuntime) n \<noteq> None"
       "check_registered (Flows fRuntime) flows [] = Inl (ErrAlreadyRegistered n)"
    by blast
  from conn ne n(3) have "Register fRuntime flows c = Return (Some (ErrAlreadyRegistered n), fRuntime, c, [])"
    by (simp add: Register_def IsNil_def)
  with n(1,2) show "\<exists>n \<in> fst ` set flows. map_of (Flows fRuntime) n \<noteq> None
          \<and> Register fRuntime flows c = Return (Some (ErrAlreadyRegistered n), fRuntime, c, [])"
    by blast
next
  assume "rmqConnection fRuntime = NilPointer"
  then show "Register fRuntime flows c = Return (Some ErrRegisterNoConnection, fRuntime, c, [])"
    by (simp add: Register_def IsNil_def)
next
  assume "rmqConnection fRuntime = Connection"
  then show "Register fRuntime [] c = Return (None, fRuntime, c, [])"
    by (simp add: Register_def IsNil_def)
next
  assume "rmqConnection fRuntime = NilInterface"
  then show "Register fRuntime flows c = Panic"
    by (simp add: Register_def IsNil_def)
next
  assume "rmqConnection fRuntime = Connection" "flows \<noteq> []" "\<not> workerMode fRuntime"
    and "\<forall>n \<in> fst ` set flows. map_of (Flows fRuntime) n = None"
  then show "Register fRuntime flows c =
           Return (None, fRuntime\<lparr>Flows := set_flows (Flows fRuntime) flows\<rparr>, c,
                   [LogQueueWorkersStarted (map fst flows)])"
    using check_registered_fresh [of flows "Flows fRuntime" "[]"]
    by (simp add: Register_def IsNil_def Let_def)
qed

theorem Register_atomic_witness:
  "Register
     \<lparr>Flows = [(''a'', 1::nat)], Concurrency = 2, RetryQueueCount = 1, workerMode = True,
      taskQueues = None, rmqConnection = Connection\<rparr>
     [(''b'', 2), (''a'', 3)]
     \<lparr>calls = ([] :: string rmq_call list), next_handle = 0, rmq_faults = []\<rparr>
   = Return (Some (ErrAlreadyRegistered ''a''),
       \<lparr>Flows = [(''a'', 1::nat)], Concurrency = 2, RetryQueueCount = 1, workerMode = True,
        taskQueues = None, rmqConnection = Connection\<rparr>,
       \<lparr>calls = [], next_handle = 0, rmq_faults = []\<rparr>, [])
  \<and> Register
     \<lparr>Flows = [(''a'', 1::nat)], Concurrency = 2, RetryQueueCount = 1, workerMode = True,
      taskQueues = None, rmqConnection = Connection\<rparr>
     []
     \<lparr>calls = ([] :: string rmq_call list), next_handle = 0, rmq_faults = []\<rparr>
   = Return (None,
       \<lparr>Flows = [(''a'', 1::nat)], Concurrency = 2, RetryQueueCount = 1, workerMode = True,
        taskQueues = None, rmqConnection = Connection\<rparr>,
       \<lparr>calls = [], next_handle = 0, rmq_faults = []\<rparr>, [])"
proof -
  let ?rt = "\<lparr>Flows = [(''a'', 1::nat)], Concurrency = 2, RetryQueueCount = 1, workerMode = True,
      taskQueues = None, rmqConnection = Connection\<rparr>"
  let ?c = "\<lparr>calls = ([] :: string rmq_call list), next_handle = 0, rmq_faults = []\<rparr>"
  note th = Register_atomic [of ?rt "[(''b'', 2), (''a'', 3)]" ?c]
  have conn: "rmqConnection ?rt = Connection" by simp
  have dup: "\<exists>n \<in> fst ` set [(''b'', 2::nat), (''a'', 3)]. map_of (Flows ?rt) n \<noteq> None" by simp
  from th [THEN conjunct1, THEN mp, OF conn, THEN mp, OF dup]
  have 1: "Register ?rt [(''b'', 2), (''a'', 3)] ?c = Return (Some (ErrAlreadyRegistered ''a''), ?rt, ?c, [])"
    by auto
  from th [THEN conjunct2, THEN conjunct2, THEN conjunct1, THEN mp, OF conn]
  have 2: "Register ?rt [] ?c = Return (None, ?rt, ?c, [])" .
  from 1 2 show ?thesis by simp
qed

lemma rmq_call_healthy:
  "rmq_faults c = [] \<Longrightarrow> rmq_call x c = (None, c\<lparr>calls := calls c @ [x]\<rparr>)"
  by (simp add: rmq_call_def rmq_fault_def)

lemma rmq_OpenQueue_healthy:
  "rmq_faults c = [] \<Longrightarrow>
     rmq_OpenQueue name c =
       (Inr (next_handle c),
        c\<lparr>calls := calls c @ [OpenQueue name (next_handle c)], next_handle := Suc (next_handle c)\<rparr>)"
  by (simp add: rmq_OpenQueue_def rmq_call_healthy)

lemma open_push_queues_healthy:
  "rmq_faults c = [] \<Longrightarrow>
     open_push_queues base idxs prev pqs c =
       (Inr (pqs @ [next_handle c..<next_handle c + length idxs]),
        c\<lparr>calls := calls c @ push_calls base idxs prev (next_handle c),
          next_handle := next_handle c + length idxs\<rparr>)"
proof (induction idxs arbitrary: prev pqs c)
  case Nil
  then show ?case by simp
next
  case (Cons idx idxs)
  let ?q = "next_handle c"
  let ?c1 = "c\<lparr>calls := calls c @ [OpenQueue (base @ ''-push-'' @ decimal idx) ?q],
               next_handle := Suc ?q\<rparr>"
  let ?c2 = "rmq_SetPushQueue prev ?q ?c1"
  have f: "rmq_faults ?c2 = []" using Cons.prems by (simp add: rmq_SetPushQueue_def)
  have step: "open_push_queues base (idx # idxs) prev pqs c
                = open_push_queues base idxs ?q (pqs @ [?q]) ?c2"
    using rmq_OpenQueue_healthy [OF Cons.prems, of "base @ ''-push-'' @ decimal idx"]
    by (simp add: Let_def)
  have nh: "next_handle ?c2 = Suc ?q" and cl: "calls ?c2 = calls c @ [OpenQueue (base @ ''-push-'' @ decimal idx) ?q, SetPushQueue prev ?q]"
    by (simp_all add: rmq_SetPushQueue_def)
  have "[?q..<?q + Suc (length idxs)] = ?q # [Suc ?q..<?q + Suc (length idxs)]"
    by (rule upt_conv_Cons) simp
  then have l: "(pqs @ [?q]) @ [Suc ?q..<Suc ?q + length idxs] = pqs @ [?q..<?q + length (idx # idxs)]"
    by (simp del: upt_Suc)
  have "open_push_queues base idxs ?q (pqs @ [?q]) ?c2 =
       (Inr ((pqs @ [?q]) @ [next_handle ?c2..<next_handle ?c2 + length idxs]),
        ?c2\<lparr>calls := calls ?c2 @ push_calls base idxs ?q (next_handle ?c2),
          next_handle := next_handle ?c2 + length idxs\<rparr>)"
    by (rule Cons.IH [OF f])
  also have "\<dots> = (Inr (pqs @ [?q..<?q + length (idx # idxs)]),
        c\<lparr>calls := calls c @ push_calls base (idx # idxs) prev ?q,
          next_handle := ?q + length (idx # idxs)\<rparr>)"
    unfolding nh cl l by (simp add: rmq_SetPushQueue_def del: upt_Suc)
  finally show ?case using step by simp
qed

lemma push_calls_upt:
  "push_calls base [k..<N] (L + k) (L + 1 + k) =
     concat (map (\<lambda>i. [OpenQueue (base @ ''-push-'' @ decimal i) (L + 1 + i),
                         SetPushQueue (L + i) (L + 1 + i)]) [k..<N])"
proof (induction "N - k" arbitrary: k)
  case 0
  then show ?case by simp
next
  case (Suc n)
  then have k: "k < N" and n: "n = N - Suc k" by simp_all
  from Suc.hyps(1) [OF n] k show ?case
    by (simp add: upt_conv_Cons)
qed

lemma start_push_queues_healthy:
  "rmq_faults c = [] \<Longrightarrow>
     start_push_queues pqs idxs c =
       (None, c\<lparr>calls := calls c @ map (\<lambda>idx. StartConsuming (pqs ! idx) 10 Second) idxs\<rparr>)"
proof (induction idxs arbitrary: c)
  case Nil
  then show ?case by simp
next
  case (Cons idx idxs)
  let ?c1 = "c\<lparr>calls := calls c @ [StartConsuming (pqs ! idx) 10 Second]\<rparr>"
  have f: "rmq_faults ?c1 = []" using Cons.prems by simp
  show ?case
    using Cons.IH [OF f] rmq_call_healthy [OF Cons.prems]
    by (simp add: rmq_StartConsuming_def)
qed

lemma add_task_consumers_healthy:
  "rmq_faults c = [] \<Longrightarrow>
     add_task_consumers q idxs c =
       (None, c\<lparr>calls := calls c @ map (\<lambda>idx. AddConsumer q (''request-consumer-'' @ decimal idx)) idxs\<rparr>)"
proof (induction idxs arbitrary: c)
  case Nil
  then show ?case by simp
next
  case (Cons idx idxs)
  let ?c1 = "c\<lparr>calls := calls c @ [AddConsumer q (''request-consumer-'' @ decimal idx)]\<rparr>"
  have f: "rmq_faults ?c1 = []" using Cons.prems by simp
  show ?case
    using Cons.IH [OF f] rmq_call_healthy [OF Cons.prems]
    by (simp add: rmq_AddConsumer_def)
qed

lemma add_push_consumers_healthy:
  "rmq_faults c = [] \<Longrightarrow>
     add_push_consumers pqs idxs c =
       (None, c\<lparr>calls := calls c
                  @ map (\<lambda>idx. AddConsumer (pqs ! idx) (''request-consumer-'' @ decimal idx)) idxs\<rparr>)"
proof (induction idxs arbitrary: c)
  case Nil
  then show ?case by simp
next
  case (Cons idx idxs)
  let ?c1 = "c\<lparr>calls := calls c @ [AddConsumer (pqs ! idx) (''request-consumer-'' @ decimal idx)]\<rparr>"
  have f: "rmq_faults ?c1 = []" using Cons.prems by simp
  show ?case
    using Cons.IH [OF f] rmq_call_healthy [OF Cons.prems]
    by (simp add: rmq_AddConsumer_def)
qed

lemma init_flow_queues_healthy:
  assumes "rmq_faults c = []" and "0 \<le> RetryQueueCount fRuntime"
  shows "init_flow_queues fRuntime F tq c =
           Return (None, tq(F \<mapsto> next_handle c),
                   c\<lparr>calls := calls c @ expected_flow_calls fRuntime (next_handle c) F,
                     next_handle := next_handle c + 1 + nat (RetryQueueCount fRuntime)\<rparr>)"
proof -
  let ?L = "next_handle c"
  let ?N = "nat (RetryQueueCount fRuntime)"
  let ?base = "internalRequestQueueId F"
  let ?pqs = "[Suc ?L..<Suc ?L + ?N]"
  let ?c1 = "c\<lparr>calls := calls c @ [OpenQueue ?base ?L], next_handle := Suc ?L\<rparr>"
  let ?c2 = "?c1\<lparr>calls := calls ?c1 @ push_calls ?base [0..<?N] ?L (Suc ?L),
                  next_handle := Suc ?L + ?N\<rparr>"
  let ?c3 = "?c2\<lparr>calls := calls ?c2 @ [StartConsuming ?L 10 Second]\<rparr>"
  let ?c4 = "?c3\<lparr>calls := calls ?c3 @ map (\<lambda>idx. StartConsuming (?pqs ! idx) 10 Second) [0..<?N]\<rparr>"
  let ?c5 = "?c4\<lparr>calls := calls ?c4
                @ map (\<lambda>idx. AddConsumer ?L (''request-consumer-'' @ decimal idx))
                      [0..<nat (Concurrency fRuntime)]\<rparr>"
  let ?c6 = "?c5\<lparr>calls := calls ?c5
                @ map (\<lambda>idx. AddConsumer (?pqs ! idx) (''request-consumer-'' @ decimal idx)) [0..<?N]\<rparr>"
  have s1: "rmq_OpenQueue ?base c = (Inr ?L, ?c1)"
    using rmq_OpenQueue_healthy [OF assms(1)] by simp
  have f1: "rmq_faults ?c1 = []" using assms(1) by simp
  have s2: "open_push_queues ?base [0..<?N] ?L [] ?c1 = (Inr ?pqs, ?c2)"
    using open_push_queues_healthy [OF f1, of ?base "[0..<?N]" ?L "[]"] by simp
  have f2: "rmq_faults ?c2 = []" using assms(1) by simp
  have s3: "rmq_StartConsuming ?L 10 Second ?c2 = (None, ?c3)"
    using rmq_call_healthy [OF f2] by (simp add: rmq_StartConsuming_def)
  have f3: "rmq_faults ?c3 = []" using assms(1) by simp
  have s4: "start_push_queues ?pqs [0..<?N] ?c3 = (None, ?c4)"
    using start_push_queues_healthy [OF f3] by simp
  have f4: "rmq_faults ?c4 = []" using assms(1) by simp
  have s5: "add_task_consumers ?L [0..<nat (Concurrency fRuntime)] ?c4 = (None, ?c5)"
    using add_task_consumers_healthy [OF f4] by simp
  have f5: "rmq_faults ?c5 = []" using assms(1) by simp
  have s6: "add_push_consumers ?pqs [0..<?N] ?c5 = (None, ?c6)"
    using add_push_consumers_healthy [OF f5] by simp
  have run: "init_flow_queues fRuntime F tq c = Return (None, tq(F \<mapsto> ?L), ?c6)"
    using assms(2) unfolding init_flow_queues_def Let_def s1 
    by (simp only: prod.case sum.case s2 s3 s4 s5 s6 option.case if_False not_less [symmetric] simp_thms)
  have p: "push_calls ?base [0..<?N] ?L (Suc ?L) =
             concat (map (\<lambda>i. [OpenQueue (?base @ ''-push-'' @ decimal i) (?L + 1 + i),
                                 SetPushQueue (?L + i) (?L + 1 + i)]) [0..<?N])"
    using push_calls_upt [of ?base 0 ?N ?L] by simp
  have n1: "map (\<lambda>idx. StartConsuming (?pqs ! idx) 10 Second) [0..<?N]
              = map (\<lambda>i. StartConsuming (?L + 1 + i) 10 Second) [0..<?N]"
    by (rule map_cong) (simp_all del: upt_Suc)
  have n2: "map (\<lambda>idx. AddConsumer (?pqs ! idx) (''request-consumer-'' @ decimal idx)) [0..<?N]
              = map (\<lambda>i. AddConsumer (?L + 1 + i) (''request-consumer-'' @ decimal i)) [0..<?N]"
    by (rule map_cong) (simp_all del: upt_Suc)
  have "?c6 = c\<lparr>calls := calls c @ expected_flow_calls fRuntime ?L F,
                 next_handle := ?L + 1 + ?N\<rparr>"
    unfolding p n1 n2
    by (simp add: expected_flow_calls_def Let_def internalRequestQueueId_def
        InternalRequestQueueInitial_def del: upt_Suc)
  with run show ?thesis by simp
qed


lemma for_each_flow_healthy:
  assumes "0 \<le> RetryQueueCount fRuntime"
  shows "rmq_faults c = [] \<Longrightarrow>
     for_each_flow fRuntime flows tq c =
       Return (None, expected_task_queues fRuntime tq (next_handle c) (map fst flows),
               c\<lparr>calls := calls c @ expected_calls fRuntime (next_handle c) (map fst flows),
                 next_handle := next_handle c + length flows * (1 + nat (RetryQueueCount fRuntime))\<rparr>)"
proof (induction flows arbitrary: tq c)
  case Nil
  then show ?case by simp
next
  case (Cons f flows)
  obtain F h where f: "f = (F, h)" by (cases f)
  let ?L = "next_handle c"
  let ?N = "nat (RetryQueueCount fRuntime)"
  let ?c1 = "c\<lparr>calls := calls c @ expected_flow_calls fRuntime ?L F, next_handle := ?L + 1 + ?N\<rparr>"
  have f1: "rmq_faults ?c1 = []" using Cons.prems by simp
  have step: "for_each_flow fRuntime (f # flows) tq c = for_each_flow fRuntime flows (tq(F \<mapsto> ?L)) ?c1"
    using init_flow_queues_healthy [OF Cons.prems assms, of F tq] f by simp
  show ?case
    unfolding step Cons.IH [OF f1] by (simp add: f)
qed

text \<open>
  C3 (as amended). While no call on the connection fails and \<open>RetryQueueCount\<close> is not
  negative, \<open>initializeTaskQueues\<close> on the registered flows returns no error, and the
  calls it makes are, flow by flow, those of \<open>expected_flow_calls\<close>: it opens the queue
  \<open>goflow-internal-request:F\<close> and the retry queues \<open>goflow-internal-request:F-push-i\<close> for
  \<open>i\<close> below \<open>RetryQueueCount\<close>, chains each queue to the next with \<open>SetPushQueue\<close>,
  starts every one of them with a prefetch of 10 and a poll of one second, adds
  \<open>Concurrency\<close> consumers to the primary queue and one consumer to each retry queue; the
  primary queue of each flow is stored in \<open>taskQueues\<close>.
\<close>

theorem initializeTaskQueues_fabric:
  assumes "rmq_faults c = []" and "0 \<le> RetryQueueCount fRuntime"
  shows "initializeTaskQueues fRuntime (Flows fRuntime) c =
           Return (None,
                   fRuntime\<lparr>taskQueues :=
                     Some (expected_task_queues fRuntime
                             (case taskQueues fRuntime of None \<Rightarrow> Map.empty | Some m \<Rightarrow> m)
                             (next_handle c) (map fst (Flows fRuntime)))\<rparr>,
                   c\<lparr>calls := calls c @ expected_calls fRuntime (next_handle c) (map fst (Flows fRuntime)),
                     next_handle := next_handle c
                        + length (Flows fRuntime) * (1 + nat (RetryQueueCount fRuntime))\<rparr>)"
  using for_each_flow_healthy [OF assms(2) assms(1)]
  by (simp add: initializeTaskQueues_def)

theorem initializeTaskQueues_fabric_witness:
  "initializeTaskQueues
     \<lparr>Flows = [(''f'', 1::nat), (''g'', 2)], Concurrency = 2, RetryQueueCount = 2, workerMode = True,
      taskQueues = None, rmqConnection = Connection\<rparr>
     [(''f'', 1), (''g'', 2)]
     \<lparr>calls = ([] :: string rmq_call list), next_handle = 0, rmq_faults = []\<rparr>
   = Return (None,
       \<lparr>Flows = [(''f'', 1::nat), (''g'', 2)], Concurrency = 2, RetryQueueCount = 2, workerMode = True,
        taskQueues = Some [''f'' \<mapsto> 0, ''g'' \<mapsto> 3], rmqConnection = Connection\<rparr>,
       \<lparr>calls =
          [OpenQueue ''goflow-internal-request:f'' 0,
           OpenQueue ''goflow-internal-request:f-push-0'' 1, SetPushQueue 0 1,
           OpenQueue ''goflow-internal-request:f-push-1'' 2, SetPushQueue 1 2,
           StartConsuming 0 10 Second, StartConsuming 1 10 Second, StartConsuming 2 10 Second,
           AddConsumer 0 ''request-consumer-0'', AddConsumer 0 ''request-consumer-1'',
           AddConsumer 1 ''request-consumer-0'', AddConsumer 2 ''request-consumer-1'',
           OpenQueue ''goflow-internal-request:g'' 3,
           OpenQueue ''goflow-internal-request:g-push-0'' 4, SetPushQueue 3 4,
           OpenQueue ''goflow-internal-request:g-push-1'' 5, SetPushQueue 4 5,
           StartConsuming 3 10 Second, StartConsuming 4 10 Second, StartConsuming 5 10 Second,
           AddConsumer 3 ''request-consumer-0'', AddConsumer 3 ''request-consumer-1'',
           AddConsumer 4 ''request-consumer-0'', AddConsumer 5 ''request-consumer-1''],
        next_handle = 6, rmq_faults = []\<rparr>)"
proof -
  let ?rt = "\<lparr>Flows = [(''f'', 1::nat), (''g'', 2)], Concurrency = 2, RetryQueueCount = 2,
              workerMode = True, taskQueues = None, rmqConnection = Connection\<rparr>"
  let ?c = "\<lparr>calls = ([] :: string rmq_call list), next_handle = 0, rmq_faults = []\<rparr>"
  have a: "rmq_faults ?c = []" and b: "0 \<le> RetryQueueCount ?rt" by simp_all
  have u2: "[0..<2] = [0, Suc 0]" by (simp add: upt_conv_Cons)
  show ?thesis
    using initializeTaskQueues_fabric [OF a b]
    by (simp add: expected_flow_calls_def u2 digit_def numeral_3_eq_3)
qed

text \<open>
  C3 as stated gives every queue \<open>Concurrency\<close> consumers. With a concurrency of
  2 and one retry queue, the retry queue (handle 1) gets the single consumer
  \<open>request-consumer-0\<close>.
\<close>

theorem retry_queue_consumers_counterexample:
  "initializeTaskQueues
     \<lparr>Flows = [(''f'', 1::nat)], Concurrency = 2, RetryQueueCount = 1, workerMode = True,
      taskQueues = None, rmqConnection = Connection\<rparr>
     [(''f'', 1)]
     \<lparr>calls = ([] :: string rmq_call list), next_handle = 0, rmq_faults = []\<rparr>
   = Return (None,
       \<lparr>Flows = [(''f'', 1::nat)], Concurrency = 2, RetryQueueCount = 1, workerMode = True,
        taskQueues = Some [''f'' \<mapsto> 0], rmqConnection = Connection\<rparr>,
       \<lparr>calls =
          [OpenQueue ''goflow-internal-request:f'' 0,
           OpenQueue ''goflow-internal-request:f-push-0'' 1, SetPushQueue 0 1,
           StartConsuming 0 10 Second, StartConsuming 1 10 Second,
           AddConsumer 0 ''request-consumer-0'', AddConsumer 0 ''request-consumer-1'',
           AddConsumer 1 ''request-consumer-0''],
        next_handle = 2, rmq_faults = []\<rparr>)
   \<and> consumers_of 1
         [OpenQueue ''goflow-internal-request:f'' 0,
          OpenQueue ''goflow-internal-request:f-push-0'' 1, SetPushQueue 0 1,
          StartConsuming 0 10 Second, StartConsuming 1 10 Second,
          AddConsumer 0 ''request-consumer-0'', AddConsumer 0 ''request-consumer-1'',
          AddConsumer 1 ''request-consumer-0'' :: string rmq_call]
       = [''request-consumer-0'']"
  by (simp add: initializeTaskQueues_def init_flow_queues_def rmq_OpenQueue_def rmq_call_def
      rmq_fault_def rmq_SetPushQueue_def rmq_StartConsuming_def rmq_AddConsumer_def
      internalRequestQueueId_def InternalRequestQueueInitial_def digit_def upt_conv_Cons)

lemma expected_task_queues_keeps:
  "F \<notin> set Fs \<Longrightarrow> expected_task_queues fRuntime tq L Fs F = tq F"
  by (induction Fs arbitrary: tq L) auto

lemma expected_task_queues_dom:
  "F \<in> set Fs \<Longrightarrow> \<exists>q. expected_task_queues fRuntime tq L Fs F = Some q"
proof (induction Fs arbitrary: tq L)
  case Nil
  then show ?case by simp
next
  case (Cons G Fs)
  show ?case
  proof (cases "F \<in> set Fs")
    case True
    from Cons.IH [OF this] show ?thesis by simp
  next
    case False
    with Cons.prems have "F = G" by simp
    with False show ?thesis by (simp add: expected_task_queues_keeps)
  qed
qed

lemma rmq_PublishBytes_cases:
  "rmq_PublishBytes q data c =
     (if fst (rmq_fault c) then (Some RmqFault, snd (rmq_fault c))
      else (None, (snd (rmq_fault c))\<lparr>calls := calls c @ [PublishBytes q data]\<rparr>))"
  by (auto simp: rmq_PublishBytes_def rmq_call_def rmq_fault_def split: list.splits prod.splits)

text \<open>
  C10. \<open>EnqueuePartialRequest\<close> checks nothing before it calls \<open>PublishBytes\<close> on the
  queue it reads from \<open>taskQueues\<close>. When the map holds a queue for the flow of the
  request, the call returns: if the publish fails, the error of the publish and no call
  on the broker; otherwise nil, after exactly one publish of the task of type
  \<open>PARTIAL\<close> on that queue. When the map is nil or holds no queue for the flow, the call
  panics. After an \<open>initializeTaskQueues\<close> that returned no error (no call failing), the
  map holds a queue for every registered flow, so the call does not panic.
\<close>

theorem EnqueuePartialRequest_precondition:
  "(taskQueues fRuntime = Some m \<longrightarrow> m (FlowName pr) = Some q \<longrightarrow>
      EnqueuePartialRequest env fRuntime pr c =
        Return (if fst (rmq_fault c) then (Some (ErrPublishTask RmqFault), snd (rmq_fault c))
                else (None,
                      (snd (rmq_fault c))
                        \<lparr>calls := calls c @
                           [PublishBytes q
                              (json_Marshal env
                                 \<lparr>flow_name = FlowName pr, request_id = RequestID pr, body = Body pr,
                                  header = Header pr, raw_query = RawQuery pr, query = Query pr,
                                  request_type = ''PARTIAL''\<rparr>)]\<rparr>)))
   \<and> (taskQueues fRuntime = None \<longrightarrow> EnqueuePartialRequest env fRuntime pr c = Panic)
   \<and> (taskQueues fRuntime = Some m \<longrightarrow> m (FlowName pr) = None \<longrightarrow>
         EnqueuePartialRequest env fRuntime pr c = Panic)
   \<and> (rmq_faults c0 = [] \<longrightarrow> 0 \<le> RetryQueueCount rt0 \<longrightarrow> FlowName pr \<in> fst ` set (Flows rt0) \<longrightarrow>
         initializeTaskQueues rt0 (Flows rt0) c0 = Return (None, fRuntime, c1) \<longrightarrow>
         EnqueuePartialRequest env fRuntime pr c \<noteq> Panic)"
proof (intro conjI impI)
  assume "taskQueues fRuntime = Some m" "m (FlowName pr) = Some q"
  then show "EnqueuePartialRequest env fRuntime pr c =
        Return (if fst (rmq_fault c) then (Some (ErrPublishTask RmqFault), snd (rmq_fault c))
                else (None,
                      (snd (rmq_fault c))
                        \<lparr>calls := calls c @
                           [PublishBytes q
                              (json_Marshal env
                                 \<lparr>flow_name = FlowName pr, request_id = RequestID pr, body = Body pr,
                                  header = Header pr, raw_query = RawQuery pr, query = Query pr,
                                  request_type = ''PARTIAL''\<rparr>)]\<rparr>))"
    by (simp add: EnqueuePartialRequest_def rmq_PublishBytes_cases PartialRequest_def)
next
  assume "taskQueues fRuntime = None"
  then show "EnqueuePartialRequest env fRuntime pr c = Panic"
    by (simp add: EnqueuePartialRequest_def)
next
  assume "taskQueues fRuntime = Some m" "m (FlowName pr) = None"
  then show "EnqueuePartialRequest env fRuntime pr c = Panic"
    by (simp add: EnqueuePartialRequest_def)
next
  assume h: "rmq_faults c0 = []" "0 \<le> RetryQueueCount rt0" "FlowName pr \<in> fst ` set (Flows rt0)"
    "initializeTaskQueues rt0 (Flows rt0) c0 = Return (None, fRuntime, c1)"
  let ?tq = "expected_task_queues rt0 (case taskQueues rt0 of None \<Rightarrow> Map.empty | Some m \<Rightarrow> m)
               (next_handle c0) (map fst (Flows rt0))"
  from h(4) for_each_flow_healthy [OF h(2) h(1), of "Flows rt0"]
  have "taskQueues fRuntime = Some ?tq"
    by (auto simp: initializeTaskQueues_def)
  moreover from h(3) have "FlowName pr \<in> set (map fst (Flows rt0))" by simp
  from expected_task_queues_dom [OF this] obtain q' where "?tq (FlowName pr) = Some q'"
    by blast
  ultimately show "EnqueuePartialRequest env fRuntime pr c \<noteq> Panic"
    by (simp add: EnqueuePartialRequest_def split: prod.splits option.splits)
qed


theorem EnqueuePartialRequest_precondition_witness:
  "EnqueuePartialRequest ideal_env
     \<lparr>Flows = [(''f'', 1)], Concurrency = 1, RetryQueueCount = 0, workerMode = True,
      taskQueues = Some [''f'' \<mapsto> 0], rmqConnection = Connection\<rparr>
     \<lparr>FlowName = ''f'', RequestID = ''r1'', Body = ''b'', Header = Map.empty, RawQuery = [],
      Query = Map.empty\<rparr>
     \<lparr>calls = [], next_handle = 1, rmq_faults = []\<rparr>
   = Return (None,
       \<lparr>calls = [PublishBytes 0
                   \<lparr>flow_name = ''f'', request_id = ''r1'', body = ''b'', header = Map.empty,
                    raw_query = [], query = Map.empty, request_type = ''PARTIAL''\<rparr>],
        next_handle = 1, rmq_faults = []\<rparr>)
   \<and> EnqueuePartialRequest ideal_env
     \<lparr>Flows = [(''f'', 1)], Concurrency = 1, RetryQueueCount = 0, workerMode = True,
      taskQueues = Some [''f'' \<mapsto> 0], rmqConnection = Connection\<rparr>
     \<lparr>FlowName = ''f'', RequestID = ''r1'', Body = ''b'', Header = Map.empty, RawQuery = [],
      Query = Map.empty\<rparr>
     \<lparr>calls = [], next_handle = 1, rmq_faults = [True]\<rparr>
   = Return (Some (ErrPublishTask RmqFault), \<lparr>calls = [], next_handle = 1, rmq_faults = []\<rparr>)
   \<and> EnqueuePartialRequest ideal_env
     \<lparr>Flows = [(''f'', 1)], Concurrency = 1, RetryQueueCount = 0, workerMode = False,
      taskQueues = None, rmqConnection = Connection\<rparr>
     \<lparr>FlowName = ''f'', RequestID = ''r1'', Body = ''b'', Header = Map.empty, RawQuery = [],
      Query = Map.empty\<rparr>
     \<lparr>calls = [], next_handle = 1, rmq_faults = []\<rparr>
   = Panic"
proof -
  let ?rt = "\<lparr>Flows = [(''f'', 1::nat)], Concurrency = 1, RetryQueueCount = 0, workerMode = True,
      taskQueues = Some [''f'' \<mapsto> 0], rmqConnection = Connection\<rparr>"
  let ?rt' = "\<lparr>Flows = [(''f'', 1::nat)], Concurrency = 1, RetryQueueCount = 0, workerMode = False,
      taskQueues = None, rmqConnection = Connection\<rparr>"
  let ?pr = "\<lparr>FlowName = ''f'', RequestID = ''r1'', Body = ''b'', Header = Map.empty, RawQuery = [],
      Query = Map.empty\<rparr>"
  let ?c = "\<lparr>calls = ([] :: Task rmq_call list), next_handle = 1, rmq_faults = []\<rparr>"
  let ?cf = "\<lparr>calls = ([] :: Task rmq_call list), next_handle = 1, rmq_faults = [True]\<rparr>"
  have tq: "taskQueues ?rt = Some [''f'' \<mapsto> 0]" and q: "[''f'' \<mapsto> 0::nat] (FlowName ?pr) = Some 0"
    and none: "taskQueues ?rt' = None"
    by simp_all
  have 1: "EnqueuePartialRequest ideal_env ?rt ?pr ?c
      = Return (None,
       \<lparr>calls = [PublishBytes 0
                   \<lparr>flow_name = ''f'', request_id = ''r1'', body = ''b'', header = Map.empty,
                    raw_query = [], query = Map.empty, request_type = ''PARTIAL''\<rparr>],
        next_handle = 1, rmq_faults = []\<rparr>)"
    using EnqueuePartialRequest_precondition
            [where fRuntime = ?rt and pr = ?pr and c = ?c and env = ideal_env,
             THEN conjunct1, THEN mp, OF tq, THEN mp, OF q]
    by (simp add: rmq_fault_def ideal_env_def)
  have 2: "EnqueuePartialRequest ideal_env ?rt ?pr ?cf
      = Return (Some (ErrPublishTask RmqFault), \<lparr>calls = [], next_handle = 1, rmq_faults = []\<rparr>)"
    using EnqueuePartialRequest_precondition
            [where fRuntime = ?rt and pr = ?pr and c = ?cf and env = ideal_env,
             THEN conjunct1, THEN mp, OF tq, THEN mp, OF q]
    by (simp add: rmq_fault_def ideal_env_def)
  have 3: "EnqueuePartialRequest ideal_env ?rt' ?pr ?c = Panic"
    using EnqueuePartialRequest_precondition
            [where fRuntime = ?rt' and pr = ?pr and c = ?c and env = ideal_env,
             THEN conjunct2, THEN conjunct1, THEN mp, OF none] .
  from 1 2 3 show ?thesis by simp
qed

lemma delivery_call_healthy:
  "d_faults m = [] \<Longrightarrow> unacked m \<Longrightarrow>
     delivery_call x m = (None, m\<lparr>unacked := False, d_calls := d_calls m @ [(x, None)]\<rparr>)"
  by (simp add: delivery_call_def Let_def)

lemma delivery_call_gone:
  "d_faults m = [] \<Longrightarrow> \<not> unacked m \<Longrightarrow>
     delivery_call x m =
       (Some ErrorNotFound, m\<lparr>unacked := False, d_calls := d_calls m @ [(x, Some ErrorNotFound)]\<rparr>)"
  by (simp add: delivery_call_def Let_def)

lemma delivery_call_calls:
  "d_calls (snd (delivery_call x m)) = d_calls m @ [(x, fst (delivery_call x m))]"
  by (simp add: delivery_call_def Let_def split: list.splits)

lemma handleRequest_invalid:
  assumes "ty \<notin> {''NEW'', ''PARTIAL'', ''PAUSE'', ''RESUME'', ''STOP''}"
  shows "handleRequest env fRuntime request ty = (Some (ErrInvalidRequest request ty), [])"
  using assms
  by (simp add: handleRequest_def PartialRequest_def NewRequest_def PauseRequest_def
      ResumeRequest_def StopRequest_def)


lemma Consume_events_begin:
  assumes "json_Unmarshal env (Payload message) = Inr task"
  shows "\<exists>rest. snd (Consume env fRuntime message)
           = snd (handleRequest env fRuntime (makeRequestFromTask task) (request_type task)) @ rest"
  using assms
  by (auto simp: Consume_def Let_def split: prod.splits option.splits)

text \<open>
  C5. For a task whose request type is none of \<open>NEW\<close>, \<open>PARTIAL\<close>, \<open>PAUSE\<close>, \<open>RESUME\<close> and
  \<open>STOP\<close>, \<open>handleRequest\<close> enters no handler and returns the error of an invalid
  request. \<open>Consume\<close> of a delivery with such a task enters no handler, logs the
  rejection with that error, and its first call on the delivery is \<open>Push\<close>. When no call
  on the delivery fails, the delivery is pushed (and the call of \<open>Ack\<close> that follows
  finds it gone, which is logged).
\<close>

theorem invalid_request_type_pushed:
  assumes "json_Unmarshal env (Payload message) = Inr task"
    and "request_type task \<notin> {''NEW'', ''PARTIAL'', ''PAUSE'', ''RESUME'', ''STOP''}"
  shows "handleRequest env fRuntime (makeRequestFromTask task) (request_type task)
           = (Some (ErrInvalidRequest (makeRequestFromTask task) (request_type task)), [])
       \<and> (\<forall>h r. Invoked h r \<notin> set (snd (Consume env fRuntime message)))
       \<and> Logged (LogRejectFailure (ErrInvalidRequest (makeRequestFromTask task) (request_type task)))
            \<in> set (snd (Consume env fRuntime message))
       \<and> (\<exists>rest. d_calls (fst (Consume env fRuntime message))
                    = d_calls message @ (Push, fst (delivery_call Push message)) # rest)
       \<and> (d_faults message = [] \<longrightarrow> unacked message \<longrightarrow>
            Consume env fRuntime message =
              (message\<lparr>unacked := False,
                       d_calls := d_calls message @ [(Push, None), (Ack, Some ErrorNotFound)]\<rparr>,
               [Logged (LogRejectFailure
                          (ErrInvalidRequest (makeRequestFromTask task) (request_type task))),
                Logged (LogAckFailed ErrorNotFound)]))"
proof -
  let ?req = "makeRequestFromTask task"
  let ?err = "ErrInvalidRequest ?req (request_type task)"
  have hr: "handleRequest env fRuntime ?req (request_type task) = (Some ?err, [])"
    using assms(2) by (rule handleRequest_invalid)
  obtain pr m1 where push: "delivery_call Push message = (pr, m1)"
    by (cases "delivery_call Push message")
  obtain ar m2 where ack: "delivery_call Ack m1 = (ar, m2)"
    by (cases "delivery_call Ack m1")
  have c1: "d_calls m1 = d_calls message @ [(Push, pr)]"
    using delivery_call_calls [of Push message] push by simp
  have c2: "d_calls m2 = d_calls m1 @ [(Ack, ar)]"
    using delivery_call_calls [of Ack m1] ack by simp
  have run: "Consume env fRuntime message =
      (case pr of
         Some e \<Rightarrow> (m1, [Logged (LogRejectFailure ?err), Logged (LogPushFailed e)])
       | None \<Rightarrow>
           (case ar of
              Some e \<Rightarrow> (m2, [Logged (LogRejectFailure ?err), Logged (LogAckFailed e)])
            | None \<Rightarrow> (m2, [Logged (LogRejectFailure ?err)])))"
    using assms(1) hr push ack
    by (simp add: Consume_def Let_def split: option.splits)
  have a: "\<forall>h r. Invoked h r \<notin> set (snd (Consume env fRuntime message))"
    unfolding run by (simp split: option.splits)
  have b: "Logged (LogRejectFailure ?err) \<in> set (snd (Consume env fRuntime message))"
    unfolding run by (simp split: option.splits)
  have c: "\<exists>rest. d_calls (fst (Consume env fRuntime message))
                    = d_calls message @ (Push, fst (delivery_call Push message)) # rest"
    unfolding run using c1 c2 push by (simp split: option.splits)
  have d: "Consume env fRuntime message =
              (message\<lparr>unacked := False,
                       d_calls := d_calls message @ [(Push, None), (Ack, Some ErrorNotFound)]\<rparr>,
               [Logged (LogRejectFailure ?err), Logged (LogAckFailed ErrorNotFound)])"
    if h: "d_faults message = []" "unacked message"
  proof -
    from delivery_call_healthy [OF h, of Push] push
    have p: "pr = None" "m1 = message\<lparr>unacked := False, d_calls := d_calls message @ [(Push, None)]\<rparr>"
      by simp_all
    then have "d_faults m1 = []" "\<not> unacked m1" using h by simp_all
    from delivery_call_gone [OF this, of Ack] ack
    have "(ar, m2) = (Some ErrorNotFound,
                      m1\<lparr>unacked := False, d_calls := d_calls m1 @ [(Ack, Some ErrorNotFound)]\<rparr>)"
      by simp
    then have "ar = Some ErrorNotFound"
      "m2 = message\<lparr>unacked := False, d_calls := d_calls message @ [(Push, None), (Ack, Some ErrorNotFound)]\<rparr>"
      by (simp_all add: p(2))
    with p show ?thesis unfolding run by simp
  qed
  from hr a b c d show ?thesis by blast
qed


theorem invalid_request_type_pushed_witness:
  "Consume ideal_env
     \<lparr>Flows = [(''f'', 1)], Concurrency = 1, RetryQueueCount = 0, workerMode = True,
      taskQueues = None, rmqConnection = Connection\<rparr>
     \<lparr>Payload = \<lparr>flow_name = ''f'', request_id = ''r1'', body = ''b'', header = Map.empty,
                  raw_query = [], query = Map.empty, request_type = ''BOGUS''\<rparr>,
      unacked = True, d_calls = [], d_faults = []\<rparr>
   = (\<lparr>Payload = \<lparr>flow_name = ''f'', request_id = ''r1'', body = ''b'', header = Map.empty,
                   raw_query = [], query = Map.empty, request_type = ''BOGUS''\<rparr>,
       unacked = False, d_calls = [(Push, None), (Ack, Some ErrorNotFound)], d_faults = []\<rparr>,
      [Logged (LogRejectFailure
                 (ErrInvalidRequest
                    \<lparr>FlowName = ''f'', RequestID = ''r1'', Body = ''b'', Header = Map.empty,
                     RawQuery = [], Query = Map.empty\<rparr> ''BOGUS'')),
       Logged (LogAckFailed ErrorNotFound)])"
proof -
  let ?t = "\<lparr>flow_name = ''f'', request_id = ''r1'', body = ''b'', header = Map.empty,
             raw_query = [], query = Map.empty, request_type = ''BOGUS''\<rparr>"
  let ?m = "\<lparr>Payload = ?t, unacked = True, d_calls = [], d_faults = []\<rparr>"
  have a: "json_Unmarshal ideal_env (Payload ?m) = Inr ?t" by (simp add: ideal_env_def)
  have b: "request_type ?t \<notin> {''NEW'', ''PARTIAL'', ''PAUSE'', ''RESUME'', ''STOP''}" by simp
  have c: "d_faults ?m = []" and d: "unacked ?m" by simp_all
  from invalid_request_type_pushed [OF a b, THEN conjunct2, THEN conjunct2, THEN conjunct2,
         THEN conjunct2, THEN mp, OF c, THEN mp, OF d]
  show ?thesis by (simp add: makeRequestFromTask_def)
qed

text \<open>
  C2. \<open>Consume\<close> at a delivery whose task is for a registered flow, when the controller
  of a new request returns an error: the rejection is logged, the delivery is pushed,
  and the same delivery is then acknowledged, since only the failure of \<open>Push\<close> leaves
  the function. The library answers the second call with its not-found error, which is
  logged.
\<close>

theorem Consume_acks_after_push:
  "Consume (ideal_env\<lparr>ExecuteFlowHandler := (\<lambda>h r. Some ''store unavailable'')\<rparr>)
     \<lparr>Flows = [(''f'', 1)], Concurrency = 1, RetryQueueCount = 0, workerMode = True,
      taskQueues = None, rmqConnection = Connection\<rparr>
     \<lparr>Payload = \<lparr>flow_name = ''f'', request_id = ''r1'', body = ''b'', header = Map.empty,
                  raw_query = [], query = Map.empty, request_type = ''NEW''\<rparr>,
      unacked = True, d_calls = [], d_faults = []\<rparr>
   = (\<lparr>Payload = \<lparr>flow_name = ''f'', request_id = ''r1'', body = ''b'', header = Map.empty,
                   raw_query = [], query = Map.empty, request_type = ''NEW''\<rparr>,
       unacked = False, d_calls = [(Push, None), (Ack, Some ErrorNotFound)], d_faults = []\<rparr>,
      [Invoked HandleNew
         \<lparr>FlowName = ''f'', RequestID = ''r1'', Body = ''b'', Header = Map.empty,
          RawQuery = [], Query = Map.empty\<rparr>,
       Logged (LogRejectFailure (ErrRequestFailed ''store unavailable'')),
       Logged (LogAckFailed ErrorNotFound)])"
  by (simp add: Consume_def ideal_env_def handleRequest_def makeRequestFromTask_def
      PartialRequest_def NewRequest_def handleNewRequest_def CreateExecutor_def
      delivery_call_def Let_def)

text \<open>
  The other paths of \<open>Consume\<close>, for any delivery: after a payload that does not parse
  the only call on the delivery is \<open>Push\<close>; after a handler that returns no error the
  only call is \<open>Ack\<close>; after a handler error and a failed \<open>Push\<close> the only call is that
  \<open>Push\<close>; after a handler error and a \<open>Push\<close> that succeeded, \<open>Ack\<close> follows.
\<close>

lemma Consume_paths:
  "(json_Unmarshal env (Payload message) = Inl e \<longrightarrow>
      d_calls (fst (Consume env fRuntime message))
        = d_calls message @ [(Push, fst (delivery_call Push message))])
   \<and> (json_Unmarshal env (Payload message) = Inr task \<longrightarrow>
        fst (handleRequest env fRuntime (makeRequestFromTask task) (request_type task)) = None \<longrightarrow>
        d_calls (fst (Consume env fRuntime message))
          = d_calls message @ [(Ack, fst (delivery_call Ack message))])
   \<and> (json_Unmarshal env (Payload message) = Inr task \<longrightarrow>
        fst (handleRequest env fRuntime (makeRequestFromTask task) (request_type task)) = Some err \<longrightarrow>
        fst (delivery_call Push message) = Some pe \<longrightarrow>
        d_calls (fst (Consume env fRuntime message)) = d_calls message @ [(Push, Some pe)])
   \<and> (json_Unmarshal env (Payload message) = Inr task \<longrightarrow>
        fst (handleRequest env fRuntime (makeRequestFromTask task) (request_type task)) = Some err \<longrightarrow>
        fst (delivery_call Push message) = None \<longrightarrow>
        d_calls (fst (Consume env fRuntime message))
          = d_calls message @ [(Push, None), (Ack, fst (delivery_call Ack (snd (delivery_call Push message))))])"
proof (intro conjI impI)
  assume "json_Unmarshal env (Payload message) = Inl e"
  then show "d_calls (fst (Consume env fRuntime message))
        = d_calls message @ [(Push, fst (delivery_call Push message))]"
    using delivery_call_calls [of Push message]
    by (auto simp: Consume_def split: prod.splits option.splits)
next
  assume "json_Unmarshal env (Payload message) = Inr task"
    "fst (handleRequest env fRuntime (makeRequestFromTask task) (request_type task)) = None"
  then show "d_calls (fst (Consume env fRuntime message))
          = d_calls message @ [(Ack, fst (delivery_call Ack message))]"
    using delivery_call_calls [of Ack message]
    by (auto simp: Consume_def Let_def split: prod.splits option.splits)
next
  assume "json_Unmarshal env (Payload message) = Inr task"
    "fst (handleRequest env fRuntime (makeRequestFromTask task) (request_type task)) = Some err"
    "fst (delivery_call Push message) = Some pe"
  then show "d_calls (fst (Consume env fRuntime message)) = d_calls message @ [(Push, Some pe)]"
    using delivery_call_calls [of Push message]
    by (auto simp: Consume_def Let_def split: prod.splits option.splits)
next
  assume "json_Unmarshal env (Payload message) = Inr task"
    "fst (handleRequest env fRuntime (makeRequestFromTask task) (request_type task)) = Some err"
    "fst (delivery_call Push message) = None"
  then show "d_calls (fst (Consume env fRuntime message))
          = d_calls message @ [(Push, None), (Ack, fst (delivery_call Ack (snd (delivery_call Push message))))]"
    using delivery_call_calls [of Push message]
      delivery_call_calls [of Ack "snd (delivery_call Push message)"]
    by (auto simp: Consume_def Let_def split: prod.splits option.splits)
qed


lemma Execute_healthy:
  assumes "rmq_faults c = []"
  shows "Execute env fRuntime flowName request c =
           (None,
            c\<lparr>calls := calls c @
                 [OpenConnection ''goflow'',
                  OpenQueue (''goflow-internal-request:'' @ flowName) (next_handle c),
                  PublishBytes (next_handle c)
                    (json_Marshal env
                       \<lparr>flow_name = flowName, request_id = RequestID request, body = Body request,
                        header = Header request, raw_query = RawQuery request,
                        query = Query request, request_type = ''NEW''\<rparr>)],
              next_handle := Suc (next_handle c)\<rparr>)"
  using assms
  by (simp add: Execute_def rmq_OpenConnection_def rmq_OpenQueue_healthy rmq_PublishBytes_def
      rmq_call_healthy Let_def NewRequest_def internalRequestQueueId_def
      InternalRequestQueueInitial_def)

lemma Consume_dispatch:
  assumes "json_Unmarshal env (Payload message) = Inr task"
    and "snd (handleRequest env fRuntime (makeRequestFromTask task) (request_type task)) = x # xs"
  shows "hd (snd (Consume env fRuntime message)) = x"
  using Consume_events_begin [OF assms(1), of fRuntime] assms(2) by auto

lemma utf8_valid: "ValidString s \<Longrightarrow> utf8 s = s"
  by (induction s rule: utf8.induct) (auto simp: utf8.simps ValidString.simps)

lemma decode_elements_strings:
  "decode_elements (map json_of_string vs) = Inr (map utf8 vs)"
  by (induction vs) (simp_all add: json_of_string_def decode_string_def)

lemma decode_entries_map:
  "decode_entries (map (\<lambda>k. (utf8 k, JArray (map json_of_string (the (m k))))) ks) acc
     = Inr (foldl (\<lambda>acc k. acc(utf8 k \<mapsto> map utf8 (the (m k)))) acc ks)"
  by (induction ks arbitrary: acc) (simp_all add: decode_strings_def decode_elements_strings)

lemma decode_map_json_of_map: "decode_map (json_of_map m) Map.empty = Inr (utf8_map m)"
  by (simp add: decode_map_def json_of_map_def decode_entries_map utf8_map_def)


lemma decode_member_fields:
  "decode_member ''flow_name'' (JString s) t = Inr (t\<lparr>flow_name := s\<rparr>)"
  "decode_member ''request_id'' (JString s) t = Inr (t\<lparr>request_id := s\<rparr>)"
  "decode_member ''body'' (JString s) t = Inr (t\<lparr>body := s\<rparr>)"
  "decode_member ''header'' v t =
     (case decode_map v (header t) of Inl e \<Rightarrow> Inl e | Inr m \<Rightarrow> Inr (t\<lparr>header := m\<rparr>))"
  "decode_member ''raw_query'' (JString s) t = Inr (t\<lparr>raw_query := s\<rparr>)"
  "decode_member ''query'' v t =
     (case decode_map v (query t) of Inl e \<Rightarrow> Inl e | Inr m \<Rightarrow> Inr (t\<lparr>query := m\<rparr>))"
  "decode_member ''request_type'' (JString s) t = Inr (t\<lparr>request_type := s\<rparr>)"
  by (simp_all add: decode_member_def lower_def Let_def decode_string_def)

lemma go_json_round_trip:
  "go_json_Unmarshal (go_json_Marshal t) =
     Inr \<lparr>flow_name = utf8 (flow_name t), request_id = utf8 (request_id t), body = utf8 (body t),
          header = utf8_map (header t), raw_query = utf8 (raw_query t),
          query = utf8_map (query t), request_type = utf8 (request_type t)\<rparr>"
  by (simp add: go_json_Unmarshal_def go_json_Marshal_def decode_member_fields
      zero_task_def json_of_string_def decode_map_json_of_map)

lemma foldl_upd_keys:
  "foldl (\<lambda>acc k. acc(k \<mapsto> the (m k))) a ks = (\<lambda>x. if x \<in> set ks then Some (the (m x)) else a x)"
  by (induction ks arbitrary: a) (auto simp: fun_eq_iff)

lemma utf8_map_valid:
  assumes "finite (dom m)" and "valid_map m"
  shows "utf8_map m = m"
proof -
  let ?ks = "sorted_list_of_set (dom m)"
  have ks: "set ?ks = dom m" using assms(1) by simp
  have "foldl (\<lambda>acc k. acc(utf8 k \<mapsto> map utf8 (the (m k)))) a ks
          = foldl (\<lambda>acc k. acc(k \<mapsto> the (m k))) a ks" if "set ks \<subseteq> dom m" for a ks
    using that
  proof (induction ks arbitrary: a)
    case Nil
    then show ?case by simp
  next
    case (Cons k ks)
    from Cons.prems assms(2) have "ValidString k" "\<forall>v \<in> set (the (m k)). ValidString v"
      by (auto simp: valid_map_def)
    then have eq: "utf8 k = k" "map utf8 (the (m k)) = the (m k)"
      by (simp_all add: utf8_valid map_idI)
    from Cons.prems have sub: "set ks \<subseteq> dom m" by simp
    show ?case unfolding foldl_Cons eq by (rule Cons.IH [OF sub])
  qed
  from this [of ?ks Map.empty] ks
  have "utf8_map m = (\<lambda>x. if x \<in> dom m then Some (the (m x)) else None)"
    by (simp add: utf8_map_def foldl_upd_keys)
  also have "\<dots> = m" by (rule ext) (auto simp: dom_def)
  finally show ?thesis .
qed

lemma utf8_request_valid:
  assumes "finite (dom (Header r))" and "finite (dom (Query r))" and "valid_request r"
  shows "utf8_request r = r"
  using assms by (simp add: utf8_request_def valid_request_def utf8_valid utf8_map_valid)

lemma utf8_NEW: "utf8 ''NEW'' = ''NEW''"
  by (simp add: utf8.simps rune_size_def lead_size_def Let_def)

lemma utf8_PARTIAL: "utf8 ''PARTIAL'' = ''PARTIAL''"
  by (simp add: utf8.simps rune_size_def lead_size_def Let_def)



lemma Consume_go_json:
  assumes "json_Marshal env = go_json_Marshal" and "json_Unmarshal env = go_json_Unmarshal"
    and "Payload message = go_json_Marshal t"
    and "snd (handleRequest env worker
               (utf8_request (makeRequestFromTask t)) (utf8 (request_type t))) = x # xs"
  shows "hd (snd (Consume env worker message)) = x"
proof -
  let ?t = "\<lparr>flow_name = utf8 (flow_name t), request_id = utf8 (request_id t), body = utf8 (body t),
             header = utf8_map (header t), raw_query = utf8 (raw_query t),
             query = utf8_map (query t), request_type = utf8 (request_type t)\<rparr>"
  have u: "json_Unmarshal env (Payload message) = Inr ?t"
    using assms(2,3) go_json_round_trip [of t] by simp
  have r: "makeRequestFromTask ?t = utf8_request (makeRequestFromTask t)"
    by (simp add: makeRequestFromTask_def utf8_request_def)
  from assms(4) have "snd (handleRequest env worker (makeRequestFromTask ?t) (request_type ?t)) = x # xs"
    unfolding r by simp
  from Consume_dispatch [OF u this] show ?thesis .
qed

text \<open>
  C9 (as amended). With the JSON codec of the standard library: \<open>Execute\<close> (no call on
  the broker failing) publishes on the primary queue of \<open>flowName\<close> the JSON of the task
  of type \<open>NEW\<close> built from the request, and \<open>Consume\<close> of a delivery with that payload
  enters the handler of a new request with the request whose \<open>FlowName\<close> is the argument
  \<open>flowName\<close> and whose other fields are the original's, each string with its bytes that
  are no part of a well formed UTF-8 sequence replaced by U+FFFD; when \<open>flowName\<close> and
  the strings of the original are valid UTF-8, \<open>RequestID\<close>, \<open>Body\<close>, \<open>Header\<close>, \<open>RawQuery\<close>
  and \<open>Query\<close> are equal to the original's. \<open>EnqueuePartialRequest\<close> publishes the JSON of
  the task of type \<open>PARTIAL\<close>, and \<open>Consume\<close> of it enters the handler of a partial request
  with the original request, its strings made valid in the same way: when they are
  valid UTF-8, the request is the original, all six fields equal. The header and query
  maps are finite, as every Go map is.
\<close>

theorem task_payload_round_trip:
  fixes request pr :: Request
  assumes "json_Marshal env = go_json_Marshal" and "json_Unmarshal env = go_json_Unmarshal"
    and "finite (dom (Header request))" and "finite (dom (Query request))"
    and "finite (dom (Header pr))" and "finite (dom (Query pr))"
  shows
  "(rmq_faults c = [] \<longrightarrow>
        Execute env fRuntime flowName request c =
          (None,
           c\<lparr>calls := calls c @
                [OpenConnection ''goflow'',
                 OpenQueue (''goflow-internal-request:'' @ flowName) (next_handle c),
                 PublishBytes (next_handle c)
                   (go_json_Marshal
                      \<lparr>flow_name = flowName, request_id = RequestID request, body = Body request,
                       header = Header request, raw_query = RawQuery request,
                       query = Query request, request_type = ''NEW''\<rparr>)],
             next_handle := Suc (next_handle c)\<rparr>))
   \<and> (Payload message =
         go_json_Marshal
           \<lparr>flow_name = flowName, request_id = RequestID request, body = Body request,
                       header = Header request, raw_query = RawQuery request,
                       query = Query request, request_type = ''NEW''\<rparr> \<longrightarrow>
       hd (snd (Consume env worker message))
         = Invoked HandleNew (utf8_request (request\<lparr>FlowName := flowName\<rparr>))
       \<and> (valid_request (request\<lparr>FlowName := flowName\<rparr>) \<longrightarrow>
            hd (snd (Consume env worker message))
              = Invoked HandleNew
                  \<lparr>FlowName = flowName, RequestID = RequestID request, Body = Body request,
                   Header = Header request, RawQuery = RawQuery request, Query = Query request\<rparr>))
   \<and> (rmq_faults c = [] \<longrightarrow> taskQueues fRuntime = Some m \<longrightarrow> m (FlowName pr) = Some q \<longrightarrow>
        EnqueuePartialRequest env fRuntime pr c =
          Return (None,
                  c\<lparr>calls := calls c @
                       [PublishBytes q
                          (go_json_Marshal
                             \<lparr>flow_name = FlowName pr, request_id = RequestID pr, body = Body pr,
                       header = Header pr, raw_query = RawQuery pr, query = Query pr,
                       request_type = ''PARTIAL''\<rparr>)]\<rparr>))
   \<and> (Payload message' =
         go_json_Marshal
           \<lparr>flow_name = FlowName pr, request_id = RequestID pr, body = Body pr,
                       header = Header pr, raw_query = RawQuery pr, query = Query pr,
                       request_type = ''PARTIAL''\<rparr> \<longrightarrow>
       hd (snd (Consume env worker message')) = Invoked HandlePartial (utf8_request pr)
       \<and> (valid_request pr \<longrightarrow>
            hd (snd (Consume env worker message')) = Invoked HandlePartial pr))"
proof -
  let ?tn = "\<lparr>flow_name = flowName, request_id = RequestID request, body = Body request,
                       header = Header request, raw_query = RawQuery request,
                       query = Query request, request_type = ''NEW''\<rparr>"
  let ?tp = "\<lparr>flow_name = FlowName pr, request_id = RequestID pr, body = Body pr,
                       header = Header pr, raw_query = RawQuery pr, query = Query pr,
                       request_type = ''PARTIAL''\<rparr>"
  let ?rn = "request\<lparr>FlowName := flowName\<rparr>"
  have rn: "makeRequestFromTask ?tn = ?rn" and rp: "makeRequestFromTask ?tp = pr"
    by (simp_all add: makeRequestFromTask_def)
  have 1: "Execute env fRuntime flowName request c =
          (None,
           c\<lparr>calls := calls c @
                [OpenConnection ''goflow'',
                 OpenQueue (''goflow-internal-request:'' @ flowName) (next_handle c),
                 PublishBytes (next_handle c)
                   (go_json_Marshal
                      \<lparr>flow_name = flowName, request_id = RequestID request, body = Body request,
                       header = Header request, raw_query = RawQuery request,
                       query = Query request, request_type = ''NEW''\<rparr>)],
             next_handle := Suc (next_handle c)\<rparr>)" if "rmq_faults c = []"
    using Execute_healthy [OF that, of env fRuntime flowName request] assms(1) by simp
  have 2: "hd (snd (Consume env worker message)) = Invoked HandleNew (utf8_request ?rn)"
    if p: "Payload message = go_json_Marshal ?tn"
  proof -
    have "\<exists>xs. snd (handleRequest env worker (utf8_request (makeRequestFromTask ?tn))
                   (utf8 (request_type ?tn)))
            = Invoked HandleNew (utf8_request ?rn) # xs"
      unfolding rn
      by (simp add: handleRequest_def PartialRequest_def NewRequest_def utf8_NEW split: prod.splits)
    then obtain xs where "snd (handleRequest env worker (utf8_request (makeRequestFromTask ?tn))
                   (utf8 (request_type ?tn)))
            = Invoked HandleNew (utf8_request ?rn) # xs" by blast
    from Consume_go_json [OF assms(1,2) p this] show ?thesis .
  qed
  have 3: "utf8_request ?rn = \<lparr>FlowName = flowName, RequestID = RequestID request, Body = Body request,
                   Header = Header request, RawQuery = RawQuery request, Query = Query request\<rparr>" if "valid_request ?rn"
    using utf8_request_valid [of ?rn] assms(3,4) that by simp
  have 4: "EnqueuePartialRequest env fRuntime pr c =
          Return (None,
                  c\<lparr>calls := calls c @
                       [PublishBytes q
                          (go_json_Marshal
                             \<lparr>flow_name = FlowName pr, request_id = RequestID pr, body = Body pr,
                       header = Header pr, raw_query = RawQuery pr, query = Query pr,
                       request_type = ''PARTIAL''\<rparr>)]\<rparr>)"
    if "rmq_faults c = []" "taskQueues fRuntime = Some m" "m (FlowName pr) = Some q"
    using that rmq_call_healthy [of c] assms(1)
    by (simp add: EnqueuePartialRequest_def rmq_PublishBytes_def PartialRequest_def)
  have 5: "hd (snd (Consume env worker message')) = Invoked HandlePartial (utf8_request pr)"
    if p: "Payload message' = go_json_Marshal ?tp"
  proof -
    have "\<exists>xs. snd (handleRequest env worker (utf8_request (makeRequestFromTask ?tp))
                   (utf8 (request_type ?tp)))
            = Invoked HandlePartial (utf8_request pr) # xs"
      unfolding rp
      by (simp add: handleRequest_def PartialRequest_def utf8_PARTIAL split: prod.splits)
    then obtain xs where "snd (handleRequest env worker (utf8_request (makeRequestFromTask ?tp))
                   (utf8 (request_type ?tp)))
            = Invoked HandlePartial (utf8_request pr) # xs" by blast
    from Consume_go_json [OF assms(1,2) p this] show ?thesis .
  qed
  have 6: "utf8_request pr = pr" if "valid_request pr"
    using utf8_request_valid [OF assms(5,6) that] .
  show ?thesis
  proof (intro conjI impI)
    assume "rmq_faults c = []"
    then show "Execute env fRuntime flowName request c =
          (None,
           c\<lparr>calls := calls c @
                [OpenConnection ''goflow'',
                 OpenQueue (''goflow-internal-request:'' @ flowName) (next_handle c),
                 PublishBytes (next_handle c)
                   (go_json_Marshal
                      \<lparr>flow_name = flowName, request_id = RequestID request, body = Body request,
                       header = Header request, raw_query = RawQuery request,
                       query = Query request, request_type = ''NEW''\<rparr>)],
             next_handle := Suc (next_handle c)\<rparr>)" by (rule 1)
  next
    assume "Payload message = go_json_Marshal ?tn"
    then show "hd (snd (Consume env worker message)) = Invoked HandleNew (utf8_request ?rn)"
      by (rule 2)
  next
    assume "Payload message = go_json_Marshal ?tn" and "valid_request ?rn"
    with 2 3 show "hd (snd (Consume env worker message))
              = Invoked HandleNew
                  \<lparr>FlowName = flowName, RequestID = RequestID request, Body = Body request,
                   Header = Header request, RawQuery = RawQuery request, Query = Query request\<rparr>"
      by simp
  next
    assume "rmq_faults c = []" "taskQueues fRuntime = Some m" "m (FlowName pr) = Some q"
    then show "EnqueuePartialRequest env fRuntime pr c =
          Return (None,
                  c\<lparr>calls := calls c @
                       [PublishBytes q
                          (go_json_Marshal
                             \<lparr>flow_name = FlowName pr, request_id = RequestID pr, body = Body pr,
                       header = Header pr, raw_query = RawQuery pr, query = Query pr,
                       request_type = ''PARTIAL''\<rparr>)]\<rparr>)" by (rule 4)
  next
    assume "Payload message' = go_json_Marshal ?tp"
    then show "hd (snd (Consume env worker message')) = Invoked HandlePartial (utf8_request pr)"
      by (rule 5)
  next
    assume "Payload message' = go_json_Marshal ?tp" and "valid_request pr"
    with 5 6 show "hd (snd (Consume env worker message')) = Invoked HandlePartial pr"
      by simp
  qed
qed



theorem task_payload_round_trip_witness:
  "Execute go_env
     \<lparr>Flows = [(''f'', 1)], Concurrency = 1, RetryQueueCount = 0, workerMode = False,
      taskQueues = Some [''f'' \<mapsto> 0], rmqConnection = Connection\<rparr>
     ''f''
     \<lparr>FlowName = ''f'', RequestID = ''r1'', Body = [CHR 0xE2, CHR 0x82, CHR 0xAC, CHR ''b''],
      Header = [''h'' \<mapsto> [''v'']], RawQuery = ''a=1'', Query = [''a'' \<mapsto> [''1'']]\<rparr>
     \<lparr>calls = [], next_handle = 0, rmq_faults = []\<rparr>
   = (None,
      \<lparr>calls = [OpenConnection ''goflow'', OpenQueue ''goflow-internal-request:f'' 0,
                 PublishBytes 0
                   (JSON (JObject
        [(''flow_name'', JString ''f''), (''request_id'', JString ''r1''),
         (''body'', JString [CHR 0xE2, CHR 0x82, CHR 0xAC, CHR ''b'']),
         (''header'', JObject [(''h'', JArray [JString ''v''])]),
         (''raw_query'', JString ''a=1''),
         (''query'', JObject [(''a'', JArray [JString ''1''])]),
         (''request_type'', JString ''NEW'')]))],
       next_handle = 1, rmq_faults = []\<rparr>)
   \<and> hd (snd (Consume go_env
                \<lparr>Flows = [(''f'', 1)], Concurrency = 1, RetryQueueCount = 0, workerMode = True,
      taskQueues = None, rmqConnection = Connection\<rparr>
                \<lparr>Payload = JSON (JObject
        [(''flow_name'', JString ''f''), (''request_id'', JString ''r1''),
         (''body'', JString [CHR 0xE2, CHR 0x82, CHR 0xAC, CHR ''b'']),
         (''header'', JObject [(''h'', JArray [JString ''v''])]),
         (''raw_query'', JString ''a=1''),
         (''query'', JObject [(''a'', JArray [JString ''1''])]),
         (''request_type'', JString ''NEW'')]),
      unacked = True, d_calls = [], d_faults = []\<rparr>))
       = Invoked HandleNew
           \<lparr>FlowName = ''f'', RequestID = ''r1'', Body = [CHR 0xE2, CHR 0x82, CHR 0xAC, CHR ''b''],
      Header = [''h'' \<mapsto> [''v'']], RawQuery = ''a=1'', Query = [''a'' \<mapsto> [''1'']]\<rparr>
   \<and> EnqueuePartialRequest go_env
        \<lparr>Flows = [(''f'', 1)], Concurrency = 1, RetryQueueCount = 0, workerMode = False,
      taskQueues = Some [''f'' \<mapsto> 0], rmqConnection = Connection\<rparr>
        \<lparr>FlowName = ''f'', RequestID = ''r1'', Body = [CHR 0xE2, CHR 0x82, CHR 0xAC, CHR ''b''],
      Header = [''h'' \<mapsto> [''v'']], RawQuery = ''a=1'', Query = [''a'' \<mapsto> [''1'']]\<rparr>
        \<lparr>calls = [], next_handle = 0, rmq_faults = []\<rparr>
      = Return (None,
                \<lparr>calls = [PublishBytes 0
                            (JSON (JObject
        [(''flow_name'', JString ''f''), (''request_id'', JString ''r1''),
         (''body'', JString [CHR 0xE2, CHR 0x82, CHR 0xAC, CHR ''b'']),
         (''header'', JObject [(''h'', JArray [JString ''v''])]),
         (''raw_query'', JString ''a=1''),
         (''query'', JObject [(''a'', JArray [JString ''1''])]),
         (''request_type'', JString ''PARTIAL'')]))],
                 next_handle = 0, rmq_faults = []\<rparr>)
   \<and> hd (snd (Consume go_env
                \<lparr>Flows = [(''f'', 1)], Concurrency = 1, RetryQueueCount = 0, workerMode = True,
      taskQueues = None, rmqConnection = Connection\<rparr>
                \<lparr>Payload = JSON (JObject
        [(''flow_name'', JString ''f''), (''request_id'', JString ''r1''),
         (''body'', JString [CHR 0xE2, CHR 0x82, CHR 0xAC, CHR ''b'']),
         (''header'', JObject [(''h'', JArray [JString ''v''])]),
         (''raw_query'', JString ''a=1''),
         (''query'', JObject [(''a'', JArray [JString ''1''])]),
         (''request_type'', JString ''PARTIAL'')]),
      unacked = True, d_calls = [], d_faults = []\<rparr>))
       = Invoked HandlePartial
           \<lparr>FlowName = ''f'', RequestID = ''r1'', Body = [CHR 0xE2, CHR 0x82, CHR 0xAC, CHR ''b''],
      Header = [''h'' \<mapsto> [''v'']], RawQuery = ''a=1'', Query = [''a'' \<mapsto> [''1'']]\<rparr>"
proof -
  let ?rt = "\<lparr>Flows = [(''f'', 1::nat)], Concurrency = 1, RetryQueueCount = 0, workerMode = False,
      taskQueues = Some [''f'' \<mapsto> 0], rmqConnection = Connection\<rparr>"
  let ?w = "\<lparr>Flows = [(''f'', 1::nat)], Concurrency = 1, RetryQueueCount = 0, workerMode = True,
      taskQueues = None, rmqConnection = Connection\<rparr>"
  let ?rq = "\<lparr>FlowName = ''f'', RequestID = ''r1'', Body = [CHR 0xE2, CHR 0x82, CHR 0xAC, CHR ''b''],
      Header = [''h'' \<mapsto> [''v'']], RawQuery = ''a=1'', Query = [''a'' \<mapsto> [''1'']]\<rparr>"
  let ?c = "\<lparr>calls = ([] :: wire rmq_call list), next_handle = 0, rmq_faults = []\<rparr>"
  let ?tn = "\<lparr>flow_name = ''f'', request_id = ''r1'', body = [CHR 0xE2, CHR 0x82, CHR 0xAC, CHR ''b''],
      header = [''h'' \<mapsto> [''v'']], raw_query = ''a=1'', query = [''a'' \<mapsto> [''1'']], request_type = ''NEW''\<rparr>"
  let ?tp = "\<lparr>flow_name = ''f'', request_id = ''r1'', body = [CHR 0xE2, CHR 0x82, CHR 0xAC, CHR ''b''],
      header = [''h'' \<mapsto> [''v'']], raw_query = ''a=1'', query = [''a'' \<mapsto> [''1'']], request_type = ''PARTIAL''\<rparr>"
  let ?dn = "JSON (JObject
        [(''flow_name'', JString ''f''), (''request_id'', JString ''r1''),
         (''body'', JString [CHR 0xE2, CHR 0x82, CHR 0xAC, CHR ''b'']),
         (''header'', JObject [(''h'', JArray [JString ''v''])]),
         (''raw_query'', JString ''a=1''),
         (''query'', JObject [(''a'', JArray [JString ''1''])]),
         (''request_type'', JString ''NEW'')])"
  let ?dp = "JSON (JObject
        [(''flow_name'', JString ''f''), (''request_id'', JString ''r1''),
         (''body'', JString [CHR 0xE2, CHR 0x82, CHR 0xAC, CHR ''b'']),
         (''header'', JObject [(''h'', JArray [JString ''v''])]),
         (''raw_query'', JString ''a=1''),
         (''query'', JObject [(''a'', JArray [JString ''1''])]),
         (''request_type'', JString ''PARTIAL'')])"
  let ?mn = "\<lparr>Payload = ?dn, unacked = True, d_calls = [], d_faults = []\<rparr>"
  let ?mp = "\<lparr>Payload = ?dp, unacked = True, d_calls = [], d_faults = []\<rparr>"
  have codec: "json_Marshal go_env = go_json_Marshal" "json_Unmarshal go_env = go_json_Unmarshal"
    by (simp_all add: go_env_def)
  have fin: "finite (dom (Header ?rq))" "finite (dom (Query ?rq))" by simp_all
  note th = task_payload_round_trip
              [where env = go_env and flowName = "''f''" and request = ?rq and pr = ?rq
                 and c = ?c and fRuntime = ?rt and worker = ?w and message = ?mn and message' = ?mp
                 and m = "[''f'' \<mapsto> 0]" and q = 0,
               OF codec fin fin]
  have dn: "go_json_Marshal ?tn = ?dn" and dp: "go_json_Marshal ?tp = ?dp"
    by (simp_all add: go_json_Marshal_def json_of_string_def json_of_map_def utf8.simps ValidString.simps rune_size_def lead_size_def Let_def byte_in_def accept_lo_def accept_hi_def replacement_def)
  have v: "valid_request ?rq"
    by (simp add: valid_request_def valid_map_def utf8.simps ValidString.simps rune_size_def lead_size_def Let_def byte_in_def accept_lo_def accept_hi_def replacement_def)
  have 1: "Execute go_env ?rt ''f'' ?rq ?c =
             (None, \<lparr>calls = [OpenConnection ''goflow'', OpenQueue ''goflow-internal-request:f'' 0,
                               PublishBytes 0 ?dn],
                     next_handle = 1, rmq_faults = []\<rparr>)"
    using th [THEN conjunct1] dn by simp
  have pn: "Payload ?mn = go_json_Marshal ?tn" and pp: "Payload ?mp = go_json_Marshal ?tp"
    by (simp_all add: dn dp)
  have vn: "valid_request (?rq\<lparr>FlowName := ''f''\<rparr>)" using v by simp
  have 2: "hd (snd (Consume go_env ?w ?mn)) = Invoked HandleNew ?rq"
    using th [THEN conjunct2, THEN conjunct1, THEN mp, THEN conjunct2, THEN mp] pn vn by simp
  have 3: "EnqueuePartialRequest go_env ?rt ?rq ?c =
             Return (None, \<lparr>calls = [PublishBytes 0 ?dp], next_handle = 0, rmq_faults = []\<rparr>)"
    using th [THEN conjunct2, THEN conjunct2, THEN conjunct1] dp by simp
  have 4: "hd (snd (Consume go_env ?w ?mp)) = Invoked HandlePartial ?rq"
    using th [THEN conjunct2, THEN conjunct2, THEN conjunct2, THEN mp, THEN conjunct2, THEN mp]
      pp v by simp
  from 1 2 3 4 show ?thesis by simp
qed

text \<open>
  C9 as stated fails in two ways. \<open>Execute\<close> takes the flow name of the task from its
  argument \<open>flowName\<close>, not from the request: a request whose \<open>FlowName\<close> is not set comes
  back with the flow name \<open>f\<close>. And the encoder writes U+FFFD for a byte that is no part
  of a well formed UTF-8 sequence, in every string of the task: the body FF 41 of a
  partial request comes back as EF BF BD 41, and so for its flow name, its request id,
  its raw query and the names and values of its header and query maps.
\<close>

theorem task_round_trip_counterexample:
  "Execute go_env
     \<lparr>Flows = [(''f'', 1)], Concurrency = 1, RetryQueueCount = 0, workerMode = False,
      taskQueues = Some [''f'' \<mapsto> 0], rmqConnection = Connection\<rparr>
     ''f''
     \<lparr>FlowName = [], RequestID = ''r1'', Body = ''b'',
      Header = Map.empty, RawQuery = [], Query = Map.empty\<rparr>
     \<lparr>calls = [], next_handle = 0, rmq_faults = []\<rparr>
   = (None,
      \<lparr>calls = [OpenConnection ''goflow'', OpenQueue ''goflow-internal-request:f'' 0,
                 PublishBytes 0
                   (JSON (JObject
        [(''flow_name'', JString ''f''), (''request_id'', JString ''r1''),
         (''body'', JString ''b''),
         (''header'', JObject []),
         (''raw_query'', JString []),
         (''query'', JObject []),
         (''request_type'', JString ''NEW'')]))],
       next_handle = 1, rmq_faults = []\<rparr>)
   \<and> hd (snd (Consume go_env
                \<lparr>Flows = [(''f'', 1)], Concurrency = 1, RetryQueueCount = 0, workerMode = True,
      taskQueues = None, rmqConnection = Connection\<rparr>
                \<lparr>Payload = JSON (JObject
        [(''flow_name'', JString ''f''), (''request_id'', JString ''r1''),
         (''body'', JString ''b''),
         (''header'', JObject []),
         (''raw_query'', JString []),
         (''query'', JObject []),
         (''request_type'', JString ''NEW'')]),
      unacked = True, d_calls = [], d_faults = []\<rparr>))
       = Invoked HandleNew
           \<lparr>FlowName = ''f'', RequestID = ''r1'', Body = ''b'',
      Header = Map.empty, RawQuery = [], Query = Map.empty\<rparr>
   \<and> FlowName \<lparr>FlowName = ''f'', RequestID = ''r1'', Body = ''b'',
      Header = Map.empty, RawQuery = [], Query = Map.empty\<rparr>
       \<noteq> FlowName \<lparr>FlowName = [], RequestID = ''r1'', Body = ''b'',
      Header = Map.empty, RawQuery = [], Query = Map.empty\<rparr>
   \<and> EnqueuePartialRequest go_env
        \<lparr>Flows = [(''f'', 1)], Concurrency = 1, RetryQueueCount = 0, workerMode = False,
      taskQueues = Some [[CHR 0xFF] \<mapsto> 0], rmqConnection = Connection\<rparr>
        \<lparr>FlowName = [CHR 0xFF], RequestID = [CHR 0xC0], Body = [CHR 0xFF, CHR 0x41],
      Header = [[CHR 0xFF] \<mapsto> [[CHR 0xFE]]], RawQuery = [CHR 0x80], Query = [[CHR 0xF5] \<mapsto> [[CHR 0xE0, CHR 0x80]]]\<rparr>
        \<lparr>calls = [], next_handle = 0, rmq_faults = []\<rparr>
      = Return (None,
                \<lparr>calls = [PublishBytes 0
                            (JSON (JObject
        [(''flow_name'', JString [CHR 0xEF, CHR 0xBF, CHR 0xBD]), (''request_id'', JString [CHR 0xEF, CHR 0xBF, CHR 0xBD]),
         (''body'', JString [CHR 0xEF, CHR 0xBF, CHR 0xBD, CHR 0x41]),
         (''header'', JObject [([CHR 0xEF, CHR 0xBF, CHR 0xBD], JArray [JString [CHR 0xEF, CHR 0xBF, CHR 0xBD]])]),
         (''raw_query'', JString [CHR 0xEF, CHR 0xBF, CHR 0xBD]),
         (''query'', JObject [([CHR 0xEF, CHR 0xBF, CHR 0xBD], JArray [JString ([CHR 0xEF, CHR 0xBF, CHR 0xBD] @ [CHR 0xEF, CHR 0xBF, CHR 0xBD])])]),
         (''request_type'', JString ''PARTIAL'')]))],
                 next_handle = 0, rmq_faults = []\<rparr>)
   \<and> hd (snd (Consume go_env
                \<lparr>Flows = [(''f'', 1)], Concurrency = 1, RetryQueueCount = 0, workerMode = True,
      taskQueues = None, rmqConnection = Connection\<rparr>
                \<lparr>Payload = JSON (JObject
        [(''flow_name'', JString [CHR 0xEF, CHR 0xBF, CHR 0xBD]), (''request_id'', JString [CHR 0xEF, CHR 0xBF, CHR 0xBD]),
         (''body'', JString [CHR 0xEF, CHR 0xBF, CHR 0xBD, CHR 0x41]),
         (''header'', JObject [([CHR 0xEF, CHR 0xBF, CHR 0xBD], JArray [JString [CHR 0xEF, CHR 0xBF, CHR 0xBD]])]),
         (''raw_query'', JString [CHR 0xEF, CHR 0xBF, CHR 0xBD]),
         (''query'', JObject [([CHR 0xEF, CHR 0xBF, CHR 0xBD], JArray [JString ([CHR 0xEF, CHR 0xBF, CHR 0xBD] @ [CHR 0xEF, CHR 0xBF, CHR 0xBD])])]),
         (''request_type'', JString ''PARTIAL'')]),
      unacked = True, d_calls = [], d_faults = []\<rparr>))
       = Invoked HandlePartial
           \<lparr>FlowName = [CHR 0xEF, CHR 0xBF, CHR 0xBD], RequestID = [CHR 0xEF, CHR 0xBF, CHR 0xBD], Body = [CHR 0xEF, CHR 0xBF, CHR 0xBD, CHR 0x41],
      Header = [[CHR 0xEF, CHR 0xBF, CHR 0xBD] \<mapsto> [[CHR 0xEF, CHR 0xBF, CHR 0xBD]]], RawQuery = [CHR 0xEF, CHR 0xBF, CHR 0xBD], Query = [[CHR 0xEF, CHR 0xBF, CHR 0xBD] \<mapsto> [[CHR 0xEF, CHR 0xBF, CHR 0xBD] @ [CHR 0xEF, CHR 0xBF, CHR 0xBD]]]\<rparr>
   \<and> [CHR 0xEF, CHR 0xBF, CHR 0xBD] \<noteq> [CHR 0xFF]
   \<and> [CHR 0xEF, CHR 0xBF, CHR 0xBD] \<noteq> [CHR 0xC0]
   \<and> [CHR 0xEF, CHR 0xBF, CHR 0xBD, CHR 0x41] \<noteq> [CHR 0xFF, CHR 0x41]
   \<and> [CHR 0xEF, CHR 0xBF, CHR 0xBD] \<noteq> [CHR 0x80]
   \<and> [[CHR 0xEF, CHR 0xBF, CHR 0xBD] \<mapsto> [[CHR 0xEF, CHR 0xBF, CHR 0xBD]]] [CHR 0xFF] \<noteq> [[CHR 0xFF] \<mapsto> [[CHR 0xFE]]] [CHR 0xFF]
   \<and> [[CHR 0xEF, CHR 0xBF, CHR 0xBD] \<mapsto> [[CHR 0xEF, CHR 0xBF, CHR 0xBD] @ [CHR 0xEF, CHR 0xBF, CHR 0xBD]]] [CHR 0xF5] \<noteq> [[CHR 0xF5] \<mapsto> [[CHR 0xE0, CHR 0x80]]] [CHR 0xF5]"
  by (simp add: Execute_def EnqueuePartialRequest_def rmq_OpenConnection_def rmq_OpenQueue_def
      rmq_PublishBytes_def rmq_call_def rmq_fault_def internalRequestQueueId_def
      InternalRequestQueueInitial_def go_json_Marshal_def json_of_string_def json_of_map_def
      utf8.simps ValidString.simps rune_size_def lead_size_def Let_def byte_in_def accept_lo_def accept_hi_def replacement_def
      go_env_def Consume_def handleRequest_def makeRequestFromTask_def
      handleNewRequest_def handlePartialRequest_def CreateExecutor_def delivery_call_def
      NewRequest_def PartialRequest_def go_json_Unmarshal_def decode_member_fields
      zero_task_def decode_map_def decode_strings_def decode_string_def)
























end
